theory Spec2Isabelle
  imports Main "HOL-Library.Word" "HOL-Library.Sublist"
begin

section \<open>Seal: the sealed-file envelope, its builder and its reader\<close>

text \<open>
  The development embeds \<^verbatim>\<open>src/public/seal-crypto.js\<close> (key codec, \<^verbatim>\<open>createSealFile\<close>,
  \<^verbatim>\<open>openSealFile\<close>) and the decision logic of \<^verbatim>\<open>src/app/viewer/page.tsx\<close>
  (\<^verbatim>\<open>handleFileLoaded\<close>).

  The JavaScript runs on the Web platform: \<^verbatim>\<open>crypto.subtle\<close>, \<^verbatim>\<open>crypto.getRandomValues\<close>,
  \<^verbatim>\<open>atob\<close>, \<^verbatim>\<open>btoa\<close> and \<^verbatim>\<open>Date\<close> are not code of the repository. They are the fields
  of a record \<open>platform\<close> that every function takes as its first argument, so each theorem
  holds for every platform, and what a theorem needs of the primitives (that decryption
  inverts encryption, that \<^verbatim>\<open>atob\<close> inverts \<^verbatim>\<open>btoa\<close>) is a stated hypothesis.
  \<^verbatim>\<open>generateKeyPair\<close> and \<^verbatim>\<open>exportKey\<close>, which provision a key pair and are called by
  neither the builder nor the reader, are left out.
\<close>

subsection \<open>Values\<close>

text \<open>
  An \<^verbatim>\<open>ArrayBuffer\<close> or \<^verbatim>\<open>Uint8Array\<close> is a list of bytes. A JavaScript string is a
  \<open>string\<close>: a list of code units below 256, which covers the binary strings of
  \<^verbatim>\<open>atob\<close> and \<^verbatim>\<open>btoa\<close>, base64 text and Latin-1 e-mail addresses.
\<close>

type_synonym bytes = "8 word list"

text \<open>
  A thrown value: its \<^verbatim>\<open>name\<close> and its \<^verbatim>\<open>message\<close>. \<^verbatim>\<open>new Error(m)\<close> is
  \<open>Exn ''Error'' m\<close>; the platform's exceptions (\<^verbatim>\<open>InvalidCharacterError\<close> of \<^verbatim>\<open>atob\<close>,
  \<^verbatim>\<open>DataError\<close> of \<^verbatim>\<open>importKey\<close>, \<^verbatim>\<open>OperationError\<close> of \<^verbatim>\<open>decrypt\<close>) are whatever the
  platform returns.
\<close>

datatype exn = Exn (exn_name: string) (exn_message: string)

datatype algorithm = AES_GCM | RSA_OAEP

datatype keyFormat = Raw | Spki | Pkcs8

datatype ViewerStep = Upload | Validating | Decrypting | Viewing | ErrorStep

text \<open>
  The observable effects: one event for each call of \<^verbatim>\<open>crypto.subtle\<close> or
  \<^verbatim>\<open>crypto.getRandomValues\<close>, and one for each \<^verbatim>\<open>setStep\<close> of the viewer.
\<close>

datatype event =
    GenerateKey
  | GetRandomValues
  | Encrypt algorithm
  | Decrypt algorithm
  | ImportKey keyFormat
  | ExportKey keyFormat
  | SetStep ViewerStep

text \<open>
  The world threaded through the asynchronous code: the trace of events so far, and the
  number of random draws so far. A primitive that draws randomness (key generation, the
  nonce, the OAEP seed of RSA encryption) is a function of the index of its draw.
\<close>

record world =
  trace :: "event list"
  draws :: nat

record ('pk, 'sk, 'ak) platform =
  btoa :: "string \<Rightarrow> string"
  atob :: "string \<Rightarrow> exn + string"
  generateKey_aes :: "nat \<Rightarrow> 'ak"
  getRandomValues :: "nat \<Rightarrow> nat \<Rightarrow> bytes"
  encrypt_aes :: "'ak \<Rightarrow> bytes \<Rightarrow> bytes \<Rightarrow> exn + bytes"
  decrypt_aes :: "'ak \<Rightarrow> bytes \<Rightarrow> bytes \<Rightarrow> exn + bytes"
  encrypt_rsa :: "nat \<Rightarrow> 'pk \<Rightarrow> bytes \<Rightarrow> exn + bytes"
  decrypt_rsa :: "'sk \<Rightarrow> bytes \<Rightarrow> exn + bytes"
  exportKey_raw :: "'ak \<Rightarrow> exn + bytes"
  importKey_raw :: "bytes \<Rightarrow> exn + 'ak"
  importKey_spki :: "bytes \<Rightarrow> exn + 'pk"
  importKey_pkcs8 :: "bytes \<Rightarrow> exn + 'sk"
  toISOString :: "int \<Rightarrow> string"
  date_getTime :: "string \<Rightarrow> int option"
  toLocaleDateString :: "string \<Rightarrow> string"

text \<open>
  \<open>encrypt_aes k iv d\<close> is \<^verbatim>\<open>subtle.encrypt({name: 'AES-GCM', iv}, k, d)\<close>;
  \<open>encrypt_rsa n pk d\<close> is \<^verbatim>\<open>subtle.encrypt({name: 'RSA-OAEP'}, pk, d)\<close> at random draw \<open>n\<close>;
  \<open>getRandomValues n len\<close> is \<^verbatim>\<open>crypto.getRandomValues(new Uint8Array(len))\<close> at draw \<open>n\<close>;
  \<open>date_getTime s\<close> is \<^verbatim>\<open>new Date(s).getTime()\<close>, with \<open>None\<close> for \<^verbatim>\<open>NaN\<close>;
  \<open>toISOString t\<close> is \<^verbatim>\<open>new Date(t).toISOString()\<close>;
  \<open>toLocaleDateString s\<close> is the viewer's
  \<^verbatim>\<open>new Date(s).toLocaleDateString('en-US', {month: 'long', day: 'numeric', year: 'numeric'})\<close>.
\<close>

subsection \<open>Asynchronous code: a result or a thrown value, and the new world\<close>

type_synonym 'a io = "world \<Rightarrow> (exn + 'a) \<times> world"

definition io_return :: "'a \<Rightarrow> 'a io" where
  "io_return x = (\<lambda>w. (Inr x, w))"

definition io_throw :: "exn \<Rightarrow> 'a io" where
  "io_throw e = (\<lambda>w. (Inl e, w))"

definition io_bind :: "'a io \<Rightarrow> ('a \<Rightarrow> 'b io) \<Rightarrow> 'b io" where
  "io_bind m f = (\<lambda>w. case m w of (Inl e, w') \<Rightarrow> (Inl e, w') | (Inr x, w') \<Rightarrow> f x w')"

text \<open>A call that leaves no event (\<^verbatim>\<open>atob\<close>): it returns or throws.\<close>

definition io_pure :: "exn + 'a \<Rightarrow> 'a io" where
  "io_pure r = (\<lambda>w. (r, w))"

text \<open>An awaited platform call: the event is recorded whether it resolves or rejects.\<close>

definition io_call :: "event \<Rightarrow> exn + 'a \<Rightarrow> 'a io" where
  "io_call ev r = (\<lambda>w. (r, w\<lparr>trace := trace w @ [ev]\<rparr>))"

text \<open>An awaited platform call that draws randomness.\<close>

definition io_draw :: "event \<Rightarrow> (nat \<Rightarrow> exn + 'a) \<Rightarrow> 'a io" where
  "io_draw ev f = (\<lambda>w. (f (draws w), w\<lparr>trace := trace w @ [ev], draws := Suc (draws w)\<rparr>))"

subsection \<open>Strings\<close>

text \<open>
  \<^verbatim>\<open>String.prototype.toLowerCase\<close> on code units below 256: \<open>A\<close> to \<open>Z\<close> and the
  Latin-1 capitals U+00C0 to U+00DE (without the multiplication sign U+00D7) move up by 32;
  every other code unit is its own lower case.
\<close>

definition toLowerCase_char :: "char \<Rightarrow> char" where
  "toLowerCase_char c =
     (let n = (of_char c :: nat)
      in if (65 \<le> n \<and> n \<le> 90) \<or> (192 \<le> n \<and> n \<le> 222 \<and> n \<noteq> 215)
         then char_of (n + 32) else c)"

definition toLowerCase :: "string \<Rightarrow> string" where
  "toLowerCase s = map toLowerCase_char s"

text \<open>\<^verbatim>\<open>message.includes(part)\<close>: \<open>part\<close> occurs in \<open>message\<close> as a contiguous run.\<close>

definition string_includes :: "string \<Rightarrow> string \<Rightarrow> bool" where
  "string_includes message part = sublist part message"

text \<open>
  The copy loops between a binary string and a byte array:
  \<^verbatim>\<open>bytes[i] = binaryString.charCodeAt(i)\<close> and \<^verbatim>\<open>binary += String.fromCharCode(bytes[i])\<close>,
  for \<open>i\<close> from 0 to the length.
\<close>

primrec binaryToBytes :: "string \<Rightarrow> bytes" where
  "binaryToBytes [] = []"
| "binaryToBytes (c # cs) = word_of_nat (of_char c) # binaryToBytes cs"

primrec bytesToBinary :: "bytes \<Rightarrow> string" where
  "bytesToBinary [] = []"
| "bytesToBinary (b # bs) = char_of (unat b) # bytesToBinary bs"

subsection \<open>The crypto library (seal-crypto.js)\<close>

definition generateFileEncryptionKey :: "('pk, 'sk, 'ak) platform \<Rightarrow> 'ak io" where
  "generateFileEncryptionKey P = io_draw GenerateKey (\<lambda>n. Inr (generateKey_aes P n))"

definition encryptFile :: "('pk, 'sk, 'ak) platform \<Rightarrow> bytes \<Rightarrow> 'ak \<Rightarrow> (bytes \<times> bytes) io" where
  "encryptFile P fileData aesKey =
     io_bind (io_draw GetRandomValues (\<lambda>n. Inr (getRandomValues P n 12))) (\<lambda>iv.
     io_bind (io_call (Encrypt AES_GCM) (encrypt_aes P aesKey iv fileData)) (\<lambda>encryptedData.
     io_return (encryptedData, iv)))"

definition decryptFile :: "('pk, 'sk, 'ak) platform \<Rightarrow> bytes \<Rightarrow> 'ak \<Rightarrow> bytes \<Rightarrow> bytes io" where
  "decryptFile P encryptedData aesKey iv =
     io_call (Decrypt AES_GCM) (decrypt_aes P aesKey iv encryptedData)"

definition encryptKeyForRecipient :: "('pk, 'sk, 'ak) platform \<Rightarrow> 'ak \<Rightarrow> 'pk \<Rightarrow> bytes io" where
  "encryptKeyForRecipient P aesKey recipientPublicKey =
     io_bind (io_call (ExportKey Raw) (exportKey_raw P aesKey)) (\<lambda>rawKey.
     io_draw (Encrypt RSA_OAEP) (\<lambda>n. encrypt_rsa P n recipientPublicKey rawKey))"

definition decryptKeyForRecipient :: "('pk, 'sk, 'ak) platform \<Rightarrow> bytes \<Rightarrow> 'sk \<Rightarrow> 'ak io" where
  "decryptKeyForRecipient P encryptedKey userPrivateKey =
     io_bind (io_call (Decrypt RSA_OAEP) (decrypt_rsa P userPrivateKey encryptedKey)) (\<lambda>rawKey.
     io_call (ImportKey Raw) (importKey_raw P rawKey))"

definition importPublicKey :: "('pk, 'sk, 'ak) platform \<Rightarrow> string \<Rightarrow> 'pk io" where
  "importPublicKey P base64Key =
     io_bind (io_pure (atob P base64Key)) (\<lambda>binaryString.
     io_call (ImportKey Spki) (importKey_spki P (binaryToBytes binaryString)))"

definition importPrivateKey :: "('pk, 'sk, 'ak) platform \<Rightarrow> string \<Rightarrow> 'sk io" where
  "importPrivateKey P base64Key =
     io_bind (io_pure (atob P base64Key)) (\<lambda>binaryString.
     io_call (ImportKey Pkcs8) (importKey_pkcs8 P (binaryToBytes binaryString)))"

definition arrayBufferToBase64 :: "('pk, 'sk, 'ak) platform \<Rightarrow> bytes \<Rightarrow> string" where
  "arrayBufferToBase64 P buffer = btoa P (bytesToBinary buffer)"

definition base64ToArrayBuffer :: "('pk, 'sk, 'ak) platform \<Rightarrow> string \<Rightarrow> bytes io" where
  "base64ToArrayBuffer P base64 =
     io_bind (io_pure (atob P base64)) (\<lambda>binary. io_return (binaryToBytes binary))"

subsection \<open>The envelope\<close>

text \<open>
  A recipient as the sender names it, \<^verbatim>\<open>{email, publicKey}\<close>, and a recipient entry of the
  envelope, \<^verbatim>\<open>{email, encryptedKey}\<close>: both extend the record that holds the e-mail address.
\<close>

record addressee =
  email :: string

record recipient = addressee +
  publicKey :: string

record recipientKey = addressee +
  encryptedKey :: string

text \<open>
  The \<^verbatim>\<open>metadata\<close> object: \<^verbatim>\<open>createdAt\<close> and \<^verbatim>\<open>expiresAt\<close> (absent is \<open>None\<close>), and any
  further caller-supplied fields, which are the extension of the record.
\<close>

record metadata =
  createdAt :: "string option"
  expiresAt :: "string option"

record 'm sealFile =
  version :: int
  fileId :: string
  fileName :: string
  fileType :: string
  fileSize :: nat
  encryptedData :: string
  iv :: string
  recipients :: "recipientKey list"
  metadata :: "'m metadata_scheme"

text \<open>A \<^verbatim>\<open>File\<close>: its name, its MIME type and its bytes; \<^verbatim>\<open>file.size\<close> is their number.\<close>

record sourceFile =
  file_name :: string
  file_type :: string
  file_arrayBuffer :: bytes

text \<open>
  The result of \<^verbatim>\<open>openSealFile\<close>, \<^verbatim>\<open>{data, fileName, fileType}\<close>; the last two fields carry
  a prefix here, their names being those of fields of the envelope.
\<close>

record DecryptedFile =
  data :: bytes
  dec_fileName :: string
  dec_fileType :: string

text \<open>
  The loop \<^verbatim>\<open>for (const recipient of recipients)\<close> of \<^verbatim>\<open>createSealFile\<close>, with the array
  \<^verbatim>\<open>recipientKeys\<close> built so far: a rejected import or encryption leaves the loop and the
  function.
\<close>

fun wrapForRecipients ::
  "('pk, 'sk, 'ak) platform \<Rightarrow> 'ak \<Rightarrow> recipient list \<Rightarrow> recipientKey list \<Rightarrow> recipientKey list io"
where
  "wrapForRecipients P aesKey [] recipientKeys = io_return recipientKeys"
| "wrapForRecipients P aesKey (r # rs) recipientKeys =
     io_bind (importPublicKey P (publicKey r)) (\<lambda>publicKey.
     io_bind (encryptKeyForRecipient P aesKey publicKey) (\<lambda>encryptedKey.
     wrapForRecipients P aesKey rs
       (recipientKeys @ [\<lparr>email = email r, encryptedKey = arrayBufferToBase64 P encryptedKey\<rparr>])))"

text \<open>\<open>now\<close> is the clock at \<^verbatim>\<open>new Date()\<close>, in milliseconds.\<close>

definition createSealFile ::
  "('pk, 'sk, 'ak) platform \<Rightarrow> int \<Rightarrow> sourceFile \<Rightarrow> recipient list \<Rightarrow> string
    \<Rightarrow> 'm metadata_scheme \<Rightarrow> 'm sealFile io"
where
  "createSealFile P now file recipients' fileId' metadata' =
     io_bind (io_return (file_arrayBuffer file)) (\<lambda>fileData.
     io_bind (generateFileEncryptionKey P) (\<lambda>aesKey.
     io_bind (encryptFile P fileData aesKey) (\<lambda>(encryptedData, iv).
     io_bind (wrapForRecipients P aesKey recipients' []) (\<lambda>recipientKeys.
     io_return
       \<lparr>version = 1,
        fileId = fileId',
        fileName = file_name file,
        fileType = file_type file,
        fileSize = length (file_arrayBuffer file),
        encryptedData = arrayBufferToBase64 P encryptedData,
        iv = arrayBufferToBase64 P iv,
        recipients = recipientKeys,
        metadata = metadata'\<lparr>createdAt := Some (toISOString P now)\<rparr>\<rparr>))))"

definition openSealFile ::
  "('pk, 'sk, 'ak) platform \<Rightarrow> 'm sealFile \<Rightarrow> string \<Rightarrow> string \<Rightarrow> DecryptedFile io"
where
  "openSealFile P sealFile userEmail userPrivateKeyBase64 =
     (case find (\<lambda>r. toLowerCase (email r) = toLowerCase userEmail) (recipients sealFile) of
        None \<Rightarrow> io_throw (Exn ''Error'' ''You are not a recipient of this file'')
      | Some recipientEntry \<Rightarrow>
          io_bind (importPrivateKey P userPrivateKeyBase64) (\<lambda>privateKey.
          io_bind (base64ToArrayBuffer P (encryptedKey recipientEntry)) (\<lambda>encryptedKeyBuffer.
          io_bind (decryptKeyForRecipient P encryptedKeyBuffer privateKey) (\<lambda>aesKey.
          io_bind (base64ToArrayBuffer P (encryptedData sealFile)) (\<lambda>encryptedData.
          io_bind (base64ToArrayBuffer P (iv sealFile)) (\<lambda>iv.
          io_bind (decryptFile P encryptedData aesKey iv) (\<lambda>decryptedData.
          io_return
            \<lparr>data = decryptedData,
             dec_fileName = fileName sealFile,
             dec_fileType = fileType sealFile\<rparr>)))))))"

subsection \<open>The viewer (app/viewer/page.tsx)\<close>

datatype ErrorIcon = Expired | Unauthorized | Invalid | Generic

record ViewerError =
  title :: string
  message :: string
  icon :: ErrorIcon

text \<open>The state of the page component that \<^verbatim>\<open>handleFileLoaded\<close> writes.\<close>

record 'm viewer =
  step :: ViewerStep
  sealFile :: "'m sealFile option"
  decryptedFile :: "DecryptedFile option"
  error :: "ViewerError option"

definition setStep :: "ViewerStep \<Rightarrow> 'm viewer \<times> world \<Rightarrow> 'm viewer \<times> world" where
  "setStep s = (\<lambda>(v, w). (v\<lparr>step := s\<rparr>, w\<lparr>trace := trace w @ [SetStep s]\<rparr>))"

definition setError :: "ViewerError \<Rightarrow> 'm viewer \<times> world \<Rightarrow> 'm viewer \<times> world" where
  "setError e = (\<lambda>(v, w). (v\<lparr>error := Some e\<rparr>, w))"

definition setSealFile :: "'m sealFile \<Rightarrow> 'm viewer \<times> world \<Rightarrow> 'm viewer \<times> world" where
  "setSealFile seal = (\<lambda>(v, w). (v\<lparr>sealFile := Some seal\<rparr>, w))"

definition setDecryptedFile :: "DecryptedFile \<Rightarrow> 'm viewer \<times> world \<Rightarrow> 'm viewer \<times> world" where
  "setDecryptedFile d = (\<lambda>(v, w). (v\<lparr>decryptedFile := Some d\<rparr>, w))"

text \<open>
  \<^verbatim>\<open>a || b\<close> on values that are a string, \<^verbatim>\<open>undefined\<close> or \<^verbatim>\<open>null\<close>: the first if it is
  truthy (a non-empty string), otherwise the second.
\<close>

definition truthy :: "string option \<Rightarrow> bool" where
  "truthy x = (case x of None \<Rightarrow> False | Some s \<Rightarrow> s \<noteq> [])"

definition js_or :: "string option \<Rightarrow> string option \<Rightarrow> string option" where
  "js_or a b = (if truthy a then a else b)"

text \<open>
  The expiry test of the validation:
  \<^verbatim>\<open>if (seal.metadata.expiresAt) { const expiry = new Date(seal.metadata.expiresAt).getTime();
  if (Date.now() > expiry) ...\<close>. The result is the timestamp text when the file has expired.
  An absent or empty \<^verbatim>\<open>expiresAt\<close> is falsy; a text that is no date gives \<^verbatim>\<open>NaN\<close>, and the
  comparison with \<^verbatim>\<open>NaN\<close> is false.
\<close>

definition expiredAt :: "('pk, 'sk, 'ak) platform \<Rightarrow> int \<Rightarrow> 'm sealFile \<Rightarrow> string option" where
  "expiredAt P now seal =
     (if truthy (expiresAt (metadata seal)) then
        (case expiresAt (metadata seal) of
           None \<Rightarrow> None
         | Some s \<Rightarrow>
             (case date_getTime P s of
                None \<Rightarrow> None
              | Some expiry \<Rightarrow> if now > expiry then Some s else None))
      else None)"

text \<open>\<^verbatim>\<open>const email = userEmail || localStorage.getItem('seal_user_email') || ''\<close>\<close>

definition callerEmail :: "string option \<Rightarrow> (string \<rightharpoonup> string) \<Rightarrow> string" where
  "callerEmail userEmail localStorage =
     (case js_or (js_or userEmail (localStorage ''seal_user_email'')) (Some []) of
        None \<Rightarrow> [] | Some s \<Rightarrow> s)"

text \<open>\<^verbatim>\<open>const isRecipient = seal.recipients.some((r) => r.email.toLowerCase() === email.toLowerCase())\<close>\<close>

definition isRecipient :: "'m sealFile \<Rightarrow> string \<Rightarrow> bool" where
  "isRecipient seal userEmail =
     list_ex (\<lambda>r. toLowerCase (email r) = toLowerCase userEmail) (recipients seal)"

text \<open>
  \<^verbatim>\<open>handleFileLoaded(parsed, _rawFile)\<close>. \<open>userEmail\<close> is the component's state
  (\<open>None\<close> while undefined), \<open>localStorage\<close> maps a key to its item (\<open>None\<close> for
  \<^verbatim>\<open>null\<close>), \<open>now\<close> is \<^verbatim>\<open>Date.now()\<close>. The page imports \<^verbatim>\<open>openSealFile\<close> from the
  module \<^verbatim>\<open>lib/crypto\<close>; the function of that name in \<^verbatim>\<open>seal-crypto.js\<close> stands for it.
  \<^verbatim>\<open>parsed\<close> is cast to the type of an envelope, so the envelope is a record with all its
  fields. Every exception of the decryption is caught, so the handler itself always
  returns; a thrown value is an \<^verbatim>\<open>Error\<close> object (a \<^verbatim>\<open>DOMException\<close> is one), so the
  message shown is its \<^verbatim>\<open>message\<close>.
\<close>

definition handleFileLoaded ::
  "('pk, 'sk, 'ak) platform \<Rightarrow> int \<Rightarrow> string option \<Rightarrow> (string \<rightharpoonup> string) \<Rightarrow> 'm sealFile
    \<Rightarrow> 'm viewer \<times> world \<Rightarrow> 'm viewer \<times> world"
where
  "handleFileLoaded P now userEmail localStorage seal s0 =
     (let s1 = setStep Validating (setSealFile seal s0) in
      case expiredAt P now seal of
        Some expiry \<Rightarrow>
          setStep ErrorStep (setError
            \<lparr>title = ''File expired'',
             message = ''This file expired on '' @ toLocaleDateString P expiry
               @ ''. The sender would need to re-encrypt and send it again.'',
             icon = Expired\<rparr> s1)
      | None \<Rightarrow>
          let caller = callerEmail userEmail localStorage in
          if caller = [] then
            setStep ErrorStep (setError
              \<lparr>title = ''Not logged in'',
               message = ''You need to log in to decrypt this file.'',
               icon = Unauthorized\<rparr> s1)
          else if \<not> isRecipient seal caller then
            setStep ErrorStep (setError
              \<lparr>title = ''Not authorized'',
               message = ''You ('' @ caller
                 @ '') are not a recipient of this file. Only the listed recipients can decrypt it.'',
               icon = Unauthorized\<rparr> s1)
          else
            let s2 = setStep Decrypting s1;
                keyNotFound = setStep ErrorStep (setError
                  \<lparr>title = ''Private key not found'',
                   message = ''Your encryption key was not found on this device. You may need to log in from the device where you created your account.'',
                   icon = Generic\<rparr> s2)
            in
              (case localStorage ''seal_private_key'' of
                 None \<Rightarrow> keyNotFound
               | Some privateKey \<Rightarrow>
                   if privateKey = [] then keyNotFound else
                   (case openSealFile P seal caller privateKey (snd s2) of
                      (Inr result, w') \<Rightarrow> setStep Viewing (setDecryptedFile result (fst s2, w'))
                    | (Inl err, w') \<Rightarrow>
                        setStep ErrorStep (setError
                          \<lparr>title = ''Decryption failed'',
                           message =
                             (if string_includes (exn_message err) ''not a recipient''
                              then ''You are not authorized to decrypt this file.''
                              else ''Could not decrypt the file. '' @ exn_message err),
                           icon = Generic\<rparr> (fst s2, w')))))"


subsection \<open>A small platform to run the code on\<close>

text \<open>
  A platform with toy primitives, on which the functions above evaluate. Keys are single
  bytes. The text encoding marks a binary string with a leading \<open>=\<close> and rejects a text
  without the mark; a key is imported from exactly one byte; a ciphertext carries the key
  it was made with, and decryption under another key is rejected, as authenticated
  decryption and OAEP unwrapping reject a wrong key. A timestamp is a decimal number of
  milliseconds.
\<close>

definition demo_atob :: "string \<Rightarrow> exn + string" where
  "demo_atob s =
     (case s of
        [] \<Rightarrow> Inl (Exn ''InvalidCharacterError'' ''The string to be decoded is not correctly encoded.'')
      | c # t \<Rightarrow>
          if c = CHR ''='' then Inr t
          else Inl (Exn ''InvalidCharacterError'' ''The string to be decoded is not correctly encoded.''))"

definition demo_importKey :: "bytes \<Rightarrow> exn + 8 word" where
  "demo_importKey bs = (case bs of [b] \<Rightarrow> Inr b | _ \<Rightarrow> Inl (Exn ''DataError'' []))"

definition demo_decrypt :: "8 word \<Rightarrow> bytes \<Rightarrow> exn + bytes" where
  "demo_decrypt k c =
     (case c of
        [] \<Rightarrow> Inl (Exn ''OperationError'' [])
      | t # body \<Rightarrow> if t = k then Inr body else Inl (Exn ''OperationError'' []))"

definition demo_digit :: "char \<Rightarrow> bool" where
  "demo_digit c = (48 \<le> (of_char c :: nat) \<and> (of_char c :: nat) \<le> 57)"

definition demo_getTime :: "string \<Rightarrow> int option" where
  "demo_getTime s =
     (if s \<noteq> [] \<and> list_all demo_digit s
      then Some (foldl (\<lambda>a c. 10 * a + (of_char c - 48)) 0 s) else None)"

definition demo :: "(8 word, 8 word, 8 word) platform" where
  "demo =
     \<lparr>btoa = (\<lambda>s. CHR ''='' # s),
      atob = demo_atob,
      generateKey_aes = (\<lambda>n. word_of_nat (n + 7)),
      getRandomValues = (\<lambda>n len. replicate len (word_of_nat n)),
      encrypt_aes = (\<lambda>k iv d. Inr (k # d)),
      decrypt_aes = (\<lambda>k iv c. demo_decrypt k c),
      encrypt_rsa = (\<lambda>n pk d. Inr (pk # d)),
      decrypt_rsa = demo_decrypt,
      exportKey_raw = (\<lambda>k. Inr [k]),
      importKey_raw = demo_importKey,
      importKey_spki = demo_importKey,
      importKey_pkcs8 = demo_importKey,
      toISOString = (\<lambda>t. ''1970-01-01T00:00:00.000Z''),
      date_getTime = demo_getTime,
      toLocaleDateString = (\<lambda>s. s)\<rparr>"

definition world0 :: world where
  "world0 = \<lparr>trace = [], draws = 0\<rparr>"

definition viewer0 :: "'m viewer" where
  "viewer0 = \<lparr>step = Upload, sealFile = None, decryptedFile = None, error = None\<rparr>"

text \<open>
  The scenario of the specification: a 10-byte file sealed for \<open>a@x.com\<close> and \<open>b@x.com\<close>.
  On the demo platform the private key of a recipient has the same encoding as the public
  key.
\<close>

definition alice :: recipient where
  "alice = \<lparr>email = ''a@x.com'', publicKey = ''=A''\<rparr>"

definition bob :: recipient where
  "bob = \<lparr>email = ''b@x.com'', publicKey = ''=B''\<rparr>"

definition tenBytes :: sourceFile where
  "tenBytes =
     \<lparr>file_name = ''note.txt'', file_type = ''text/plain'',
      file_arrayBuffer = [1, 2, 3, 4, 5, 6, 7, 8, 9, 10]\<rparr>"

definition noExpiry :: metadata where
  "noExpiry = \<lparr>createdAt = None, expiresAt = None\<rparr>"

subsection \<open>What the round trip needs of the platform and of the keys\<close>

text \<open>
  The primitives are trusted to invert each other: \<^verbatim>\<open>atob\<close> decodes what \<^verbatim>\<open>btoa\<close>
  encoded; AES-GCM encryption succeeds and decryption under the same key and nonce gives
  the plaintext back; a raw export of an AES key imports to the same key.
\<close>

definition platform_inverts :: "('pk, 'sk, 'ak) platform \<Rightarrow> bool" where
  "platform_inverts P \<longleftrightarrow>
     (\<forall>s. atob P (btoa P s) = Inr s)
     \<and> (\<forall>k iv d. \<exists>c. encrypt_aes P k iv d = Inr c \<and> decrypt_aes P k iv c = Inr d)
     \<and> (\<forall>k. \<exists>raw. exportKey_raw P k = Inr raw \<and> importKey_raw P raw = Inr k)"

text \<open>
  A valid public-key encoding: it decodes, it imports, and the imported key wraps every
  exported AES key.
\<close>

definition valid_publicKey :: "('pk, 'sk, 'ak) platform \<Rightarrow> string \<Rightarrow> bool" where
  "valid_publicKey P base64Key \<longleftrightarrow>
     (\<exists>bin pk. atob P base64Key = Inr bin
        \<and> importKey_spki P (binaryToBytes bin) = Inr pk
        \<and> (\<forall>n k raw. exportKey_raw P k = Inr raw \<longrightarrow> (\<exists>c. encrypt_rsa P n pk raw = Inr c)))"

text \<open>
  The private-key encoding that matches a public-key encoding: both import, and the
  private key unwraps whatever the public key wrapped.
\<close>

definition matching_privateKey :: "('pk, 'sk, 'ak) platform \<Rightarrow> string \<Rightarrow> string \<Rightarrow> bool" where
  "matching_privateKey P publicBase64 privateBase64 \<longleftrightarrow>
     (\<exists>bin pk bin' sk. atob P publicBase64 = Inr bin
        \<and> importKey_spki P (binaryToBytes bin) = Inr pk
        \<and> atob P privateBase64 = Inr bin'
        \<and> importKey_pkcs8 P (binaryToBytes bin') = Inr sk
        \<and> (\<forall>n raw c. encrypt_rsa P n pk raw = Inr c \<longrightarrow> decrypt_rsa P sk c = Inr raw))"

text \<open>
  The entry \<open>e\<close> is what the loop of \<^verbatim>\<open>createSealFile\<close> appends for the recipient \<open>x\<close>
  when the raw AES key is \<open>raw\<close>.
\<close>

definition wrapped :: "('pk, 'sk, 'ak) platform \<Rightarrow> bytes \<Rightarrow> recipient \<Rightarrow> recipientKey \<Rightarrow> bool" where
  "wrapped P raw x e \<longleftrightarrow>
     email e = email x
     \<and> (\<exists>bin pk n c. atob P (publicKey x) = Inr bin
          \<and> importKey_spki P (binaryToBytes bin) = Inr pk
          \<and> encrypt_rsa P n pk raw = Inr c
          \<and> encryptedKey e = arrayBufferToBase64 P c)"

text \<open>
  The entry of \<open>alice\<close> with her address in another letter case: the same identity, so
  the same key.
\<close>

definition alice_upper :: recipient where
  "alice_upper = \<lparr>email = ''A@X.com'', publicKey = ''=A''\<rparr>"

text \<open>A requested recipient whose public key is two bytes long, which no key import accepts.\<close>

definition mallory :: recipient where
  "mallory = \<lparr>email = ''m@x.com'', publicKey = ''=XY''\<rparr>"

text \<open>
  The envelope of the scenario, the envelope that lists \<open>alice\<close> in capitals, the same
  file sealed with an expiry at 100 milliseconds, and the local storage of \<open>alice\<close>.
\<close>

definition sealedForTwo :: "unit sealFile" where
  "sealedForTwo =
     projr (fst (createSealFile demo 5 tenBytes [alice, bob] ''id1'' noExpiry world0))"

definition sealedForUpper :: "unit sealFile" where
  "sealedForUpper =
     projr (fst (createSealFile demo 5 tenBytes [alice_upper, bob] ''id3'' noExpiry world0))"

definition sealedUntil100 :: "unit sealFile" where
  "sealedUntil100 =
     projr (fst (createSealFile demo 5 tenBytes [alice, bob] ''id2''
       \<lparr>createdAt = None, expiresAt = Some ''100''\<rparr> world0))"

definition keyOfAlice :: "string \<rightharpoonup> string" where
  "keyOfAlice = [''seal_private_key'' \<mapsto> ''=A'']"

text \<open>
  The exception \<open>x\<close> is one that a primitive called by \<^verbatim>\<open>openSealFile\<close> rejects with:
  \<^verbatim>\<open>atob\<close>, the import of the private key, the unwrapping, the import of the raw key, or
  the decryption of the payload.
\<close>

definition platform_rejects :: "('pk, 'sk, 'ak) platform \<Rightarrow> exn \<Rightarrow> bool" where
  "platform_rejects P x \<longleftrightarrow>
     (\<exists>s. atob P s = Inl x)
     \<or> (\<exists>b. importKey_pkcs8 P b = Inl x)
     \<or> (\<exists>sk c. decrypt_rsa P sk c = Inl x)
     \<or> (\<exists>b. importKey_raw P b = Inl x)
     \<or> (\<exists>k nonce c. decrypt_aes P k nonce c = Inl x)"

section \<open>Shared lemmas\<close>

lemmas io_defs = io_return_def io_throw_def io_bind_def io_pure_def io_call_def io_draw_def

lemmas crypto_defs = generateFileEncryptionKey_def encryptFile_def decryptFile_def
  encryptKeyForRecipient_def decryptKeyForRecipient_def importPublicKey_def importPrivateKey_def
  arrayBufferToBase64_def base64ToArrayBuffer_def

lemmas viewer_defs = setStep_def setError_def setSealFile_def setDecryptedFile_def

lemmas demo_defs = demo_def demo_atob_def demo_importKey_def demo_decrypt_def demo_getTime_def
  demo_digit_def world0_def viewer0_def alice_def bob_def tenBytes_def noExpiry_def
  alice_upper_def mallory_def sealedForTwo_def sealedForUpper_def sealedUntil100_def
  keyOfAlice_def

lemma binaryToBytes_bytesToBinary: "binaryToBytes (bytesToBinary bs) = bs"
proof (induction bs)
  case Nil
  show ?case by simp
next
  case (Cons b bs)
  have "unat b < 256" using unsigned_less [of b] by simp
  then have "unat b mod 256 = unat b" by simp
  with Cons show ?case by simp
qed

subsection \<open>The four ways out of the validation\<close>

lemma handleFileLoaded_expired:
  assumes "expiredAt P now seal = Some s"
  shows "handleFileLoaded P now ue ls seal (v, w) =
    (v\<lparr>step := ErrorStep, sealFile := Some seal,
       error := Some \<lparr>title = ''File expired'',
             message = ''This file expired on '' @ toLocaleDateString P s
               @ ''. The sender would need to re-encrypt and send it again.'',
             icon = Expired\<rparr>\<rparr>,
     w\<lparr>trace := trace w @ [SetStep Validating, SetStep ErrorStep]\<rparr>)"
  using assms by (simp add: handleFileLoaded_def viewer_defs)

lemma handleFileLoaded_not_logged_in:
  assumes "expiredAt P now seal = None" "callerEmail ue ls = []"
  shows "handleFileLoaded P now ue ls seal (v, w) =
    (v\<lparr>step := ErrorStep, sealFile := Some seal,
       error := Some \<lparr>title = ''Not logged in'',
               message = ''You need to log in to decrypt this file.'',
               icon = Unauthorized\<rparr>\<rparr>,
     w\<lparr>trace := trace w @ [SetStep Validating, SetStep ErrorStep]\<rparr>)"
  using assms by (simp add: handleFileLoaded_def viewer_defs)

lemma handleFileLoaded_not_authorized:
  assumes "expiredAt P now seal = None" "callerEmail ue ls \<noteq> []"
    "\<not> isRecipient seal (callerEmail ue ls)"
  shows "handleFileLoaded P now ue ls seal (v, w) =
    (v\<lparr>step := ErrorStep, sealFile := Some seal,
       error := Some \<lparr>title = ''Not authorized'',
               message = ''You ('' @ callerEmail ue ls
                 @ '') are not a recipient of this file. Only the listed recipients can decrypt it.'',
               icon = Unauthorized\<rparr>\<rparr>,
     w\<lparr>trace := trace w @ [SetStep Validating, SetStep ErrorStep]\<rparr>)"
  using assms by (simp add: handleFileLoaded_def viewer_defs)

lemma openSealFile_trace_prefix:
  "\<exists>evs. trace (snd (openSealFile P seal e k w)) = trace w @ evs"
  by (auto simp: openSealFile_def io_defs crypto_defs split: option.splits sum.splits prod.splits)

lemma handleFileLoaded_validated:
  assumes "expiredAt P now seal = None" "callerEmail ue ls \<noteq> []"
    "isRecipient seal (callerEmail ue ls)"
  shows "\<exists>evs. trace (snd (handleFileLoaded P now ue ls seal (v, w)))
            = trace w @ [SetStep Validating, SetStep Decrypting] @ evs"
proof -
  let ?w = "w\<lparr>trace := trace w @ [SetStep Validating, SetStep Decrypting]\<rparr>"
  obtain evs where
    "trace (snd (openSealFile P seal (callerEmail ue ls) (the (ls ''seal_private_key'')) ?w))
       = trace w @ [SetStep Validating, SetStep Decrypting] @ evs"
    using openSealFile_trace_prefix
      [of P seal "callerEmail ue ls" "the (ls ''seal_private_key'')" ?w]
    by auto
  then show ?thesis
    using assms
    by (auto simp: handleFileLoaded_def viewer_defs Let_def
        split: option.splits sum.splits prod.splits)
qed

subsection \<open>Sequencing\<close>

lemma io_bind_Inr: "m w = (Inr x, w') \<Longrightarrow> io_bind m f w = f x w'"
  by (simp add: io_bind_def)

lemma io_bind_Inl: "m w = (Inl e, w') \<Longrightarrow> io_bind m f w = (Inl e, w')"
  by (simp add: io_bind_def)

lemma io_bind_assoc: "io_bind (io_bind m f) g = io_bind m (\<lambda>x. io_bind (f x) g)"
  by (auto simp: io_bind_def fun_eq_iff split: prod.splits sum.splits)

subsection \<open>The wrapping loop\<close>

text \<open>One failing recipient anywhere in the list makes the loop fail.\<close>

lemma wrapForRecipients_fails:
  assumes "r \<in> set rs"
    and "\<forall>k w. isl (fst (io_bind (importPublicKey P (publicKey r)) (encryptKeyForRecipient P k) w))"
  shows "isl (fst (wrapForRecipients P aesKey rs acc w))"
  using assms(1)
proof (induction rs arbitrary: acc w)
  case Nil
  then show ?case by simp
next
  case (Cons x xs)
  let ?body = "io_bind (importPublicKey P (publicKey x)) (encryptKeyForRecipient P aesKey)"
  have step: "wrapForRecipients P aesKey (x # xs) acc =
      io_bind ?body (\<lambda>encryptedKey. wrapForRecipients P aesKey xs
         (acc @ [\<lparr>email = email x, encryptedKey = arrayBufferToBase64 P encryptedKey\<rparr>]))"
    by (simp add: io_bind_assoc)
  obtain res w1 where b: "?body w = (res, w1)" by (cases "?body w")
  show ?case
  proof (cases res)
    case (Inl e)
    with b show ?thesis unfolding step by (simp add: io_bind_Inl)
  next
    case (Inr c)
    with assms(2) b have "x \<noteq> r"
      by (metis fst_conv sum.disc(2))
    with Cons.prems have "r \<in> set xs" by simp
    from Cons.IH [OF this] Inr b show ?thesis unfolding step by (simp add: io_bind_Inr)
  qed
qed

text \<open>A loop that returns has appended one entry for each recipient, in order.\<close>

lemma wrapForRecipients_emails:
  "wrapForRecipients P aesKey rs acc w = (Inr ks, w')
    \<Longrightarrow> map email ks = map email acc @ map email rs"
proof (induction rs arbitrary: acc w)
  case Nil
  then show ?case by (simp add: io_return_def)
next
  case (Cons x xs)
  let ?body = "io_bind (importPublicKey P (publicKey x)) (encryptKeyForRecipient P aesKey)"
  have step: "wrapForRecipients P aesKey (x # xs) acc =
      io_bind ?body (\<lambda>encryptedKey. wrapForRecipients P aesKey xs
         (acc @ [\<lparr>email = email x, encryptedKey = arrayBufferToBase64 P encryptedKey\<rparr>]))"
    by (simp add: io_bind_assoc)
  obtain res w1 where b: "?body w = (res, w1)" by (cases "?body w")
  show ?case
  proof (cases res)
    case (Inl e)
    with b Cons.prems show ?thesis unfolding step by (simp add: io_bind_Inl)
  next
    case (Inr c)
    with b Cons.prems have "wrapForRecipients P aesKey xs
         (acc @ [\<lparr>email = email x, encryptedKey = arrayBufferToBase64 P c\<rparr>]) w1 = (Inr ks, w')"
      unfolding step by (simp add: io_bind_Inr)
    from Cons.IH [OF this] show ?thesis by simp
  qed
qed

text \<open>With valid keys the loop returns, and each entry wraps the key for its recipient.\<close>

lemma wrapForRecipients_wrapped:
  assumes raw: "exportKey_raw P k = Inr raw"
    and valid: "\<forall>x\<in>set rs. valid_publicKey P (publicKey x)"
  shows "\<exists>ks w'. wrapForRecipients P k rs acc w = (Inr (acc @ ks), w')
           \<and> list_all2 (wrapped P raw) rs ks"
  using valid
proof (induction rs arbitrary: acc w)
  case Nil
  then show ?case by (simp add: io_return_def)
next
  case (Cons x xs)
  from Cons.prems obtain bin pk where
    bin: "atob P (publicKey x) = Inr bin" and
    pk: "importKey_spki P (binaryToBytes bin) = Inr pk" and
    enc: "\<And>n. \<exists>c. encrypt_rsa P n pk raw = Inr c"
    using raw unfolding valid_publicKey_def by auto
  let ?w2 = "w\<lparr>trace := trace w @ [ImportKey Spki, ExportKey Raw, Encrypt RSA_OAEP],
                draws := Suc (draws w)\<rparr>"
  obtain c where c: "encrypt_rsa P (draws w) pk raw = Inr c" using enc by blast
  let ?e = "\<lparr>email = email x, encryptedKey = arrayBufferToBase64 P c\<rparr>"
  have step: "wrapForRecipients P k (x # xs) acc w = wrapForRecipients P k xs (acc @ [?e]) ?w2"
    using bin pk raw c by (simp add: io_defs importPublicKey_def encryptKeyForRecipient_def)
  from Cons.prems have "\<forall>y\<in>set xs. valid_publicKey P (publicKey y)" by simp
  from Cons.IH [OF this, of "acc @ [?e]" ?w2] obtain ks w' where
    ks: "wrapForRecipients P k xs (acc @ [?e]) ?w2 = (Inr ((acc @ [?e]) @ ks), w')"
    and all: "list_all2 (wrapped P raw) xs ks" by blast
  have "wrapped P raw x ?e"
    unfolding wrapped_def using bin pk c by auto
  with all have "list_all2 (wrapped P raw) (x # xs) (?e # ks)" by simp
  moreover from step ks have "wrapForRecipients P k (x # xs) acc w = (Inr (acc @ (?e # ks)), w')"
    by simp
  ultimately show ?case by blast
qed

text \<open>
  A search by address finds, among the entries, the entry of the recipient that the same
  search finds among the recipients.
\<close>

lemma find_wrapped:
  assumes "list_all2 (wrapped P raw) rs ks"
    and "find (\<lambda>x. q (email x)) rs = Some r"
  shows "\<exists>e. find (\<lambda>e. q (email e)) ks = Some e \<and> wrapped P raw r e"
  using assms
proof (induction rs ks rule: list_all2_induct)
  case Nil
  then show ?case by simp
next
  case (Cons x xs e es)
  from Cons.hyps(1) have "email e = email x" by (simp add: wrapped_def)
  with Cons show ?case by (auto split: if_splits)
qed

subsection \<open>Opening what was sealed\<close>

lemma openSealFile_unwraps:
  assumes inv: "platform_inverts P"
    and found: "find (\<lambda>r. toLowerCase (email r) = toLowerCase userEmail) (recipients seal) = Some e"
    and e: "wrapped P raw r e"
    and raw: "exportKey_raw P k = Inr raw"
    and sk: "matching_privateKey P (publicKey r) privateBase64"
    and cipher: "encrypt_aes P k nonce d = Inr c"
    and ed: "encryptedData seal = arrayBufferToBase64 P c"
    and ivs: "iv seal = arrayBufferToBase64 P nonce"
  shows "fst (openSealFile P seal userEmail privateBase64 w)
      = Inr \<lparr>data = d, dec_fileName = fileName seal, dec_fileType = fileType seal\<rparr>"
proof -
  from e obtain bin pk n ck where
    bin: "atob P (publicKey r) = Inr bin" and pk: "importKey_spki P (binaryToBytes bin) = Inr pk"
    and ck: "encrypt_rsa P n pk raw = Inr ck" and ek: "encryptedKey e = arrayBufferToBase64 P ck"
    unfolding wrapped_def by blast
  from sk bin pk obtain bin' sk' where
    bin': "atob P privateBase64 = Inr bin'"
    and sk': "importKey_pkcs8 P (binaryToBytes bin') = Inr sk'"
    and unwrap: "\<And>n raw c. encrypt_rsa P n pk raw = Inr c \<Longrightarrow> decrypt_rsa P sk' c = Inr raw"
    unfolding matching_privateKey_def by auto
  have b64: "\<And>s. atob P (btoa P s) = Inr s" using inv by (simp add: platform_inverts_def)
  have imp: "importKey_raw P raw = Inr k"
    using inv raw unfolding platform_inverts_def by (metis sum.inject(2))
  have dec: "decrypt_aes P k nonce c = Inr d"
    using inv cipher unfolding platform_inverts_def by (metis sum.inject(2))
  show ?thesis
    using found bin' sk' ek unwrap [OF ck] b64 imp dec ed ivs
    by (simp add: openSealFile_def io_defs importPrivateKey_def base64ToArrayBuffer_def
        decryptKeyForRecipient_def decryptFile_def arrayBufferToBase64_def
        binaryToBytes_bytesToBinary)
qed

lemma createSealFile_roundtrip:
  assumes inv: "platform_inverts P"
    and valid: "\<forall>x\<in>set rs. valid_publicKey P (publicKey x)"
    and first: "find (\<lambda>x. toLowerCase (email x) = toLowerCase userEmail) rs = Some r"
    and sk: "matching_privateKey P (publicKey r) privateBase64"
  shows "\<exists>env w1. createSealFile P now file rs fid m w = (Inr env, w1)
      \<and> fst (openSealFile P env userEmail privateBase64 w2)
        = Inr \<lparr>data = file_arrayBuffer file, dec_fileName = file_name file,
               dec_fileType = file_type file\<rparr>"
proof -
  let ?k = "generateKey_aes P (draws w)"
  let ?nonce = "getRandomValues P (Suc (draws w)) 12"
  obtain c where c: "encrypt_aes P ?k ?nonce (file_arrayBuffer file) = Inr c"
    using inv unfolding platform_inverts_def by blast
  obtain raw where raw: "exportKey_raw P ?k = Inr raw"
    using inv unfolding platform_inverts_def by blast
  let ?w3 = "w\<lparr>draws := Suc (Suc (draws w)),
                trace := trace w @ [GenerateKey, GetRandomValues, Encrypt AES_GCM]\<rparr>"
  from wrapForRecipients_wrapped [OF raw valid, of "[]" ?w3] obtain ks w1 where
    ks: "wrapForRecipients P ?k rs [] ?w3 = (Inr ks, w1)"
    and all: "list_all2 (wrapped P raw) rs ks"
    by auto
  let ?env = "\<lparr>version = 1, fileId = fid, fileName = file_name file, fileType = file_type file,
     fileSize = length (file_arrayBuffer file), encryptedData = arrayBufferToBase64 P c,
     iv = arrayBufferToBase64 P ?nonce, recipients = ks,
     metadata = m\<lparr>createdAt := Some (toISOString P now)\<rparr>\<rparr>"
  have create: "createSealFile P now file rs fid m w = (Inr ?env, w1)"
    using c ks
    by (simp add: createSealFile_def io_defs generateFileEncryptionKey_def encryptFile_def)
  from find_wrapped [OF all, of "\<lambda>a. toLowerCase a = toLowerCase userEmail" r] first
  obtain e where e: "find (\<lambda>e. toLowerCase (email e) = toLowerCase userEmail) ks = Some e"
    and we: "wrapped P raw r e" by blast
  have "fst (openSealFile P ?env userEmail privateBase64 w2)
      = Inr \<lparr>data = file_arrayBuffer file, dec_fileName = fileName ?env,
             dec_fileType = fileType ?env\<rparr>"
    by (rule openSealFile_unwraps [OF inv _ we raw sk c]) (simp_all add: e)
  with create show ?thesis by simp
qed

text \<open>A recipient of the list has a first entry with its address, whatever \<open>f\<close> compares.\<close>

lemma find_same_address:
  assumes "r \<in> set rs"
  shows "\<exists>r0. find (\<lambda>x. f (email x) = f (email r)) rs = Some r0
           \<and> r0 \<in> set rs \<and> f (email r0) = f (email r)"
proof (cases "find (\<lambda>x. f (email x) = f (email r)) rs")
  case None
  with assms show ?thesis by (auto simp: find_None_iff)
next
  case (Some r0)
  then show ?thesis by (auto simp: find_Some_iff)
qed

subsection \<open>The demo platform and its keys\<close>

lemma toLowerCase_upper: "toLowerCase ''A@X.com'' = ''a@x.com''"
  by code_simp

lemma toLowerCase_lower:
  "toLowerCase ''a@x.com'' = ''a@x.com''"
  "toLowerCase ''b@x.com'' = ''b@x.com''"
  "toLowerCase ''c@x.com'' = ''c@x.com''"
  by (simp_all add: toLowerCase_def toLowerCase_char_def)

lemmas toLowerCase_demo = toLowerCase_upper toLowerCase_lower

lemma demo_inverts: "platform_inverts demo"
  by (simp add: platform_inverts_def demo_def demo_atob_def demo_decrypt_def demo_importKey_def)

lemma demo_valid_publicKey: "valid_publicKey demo [CHR ''='', c]"
  by (simp add: valid_publicKey_def demo_def demo_atob_def demo_importKey_def)

lemma demo_matching_privateKey: "matching_privateKey demo [CHR ''='', c] [CHR ''='', c]"
  by (simp add: matching_privateKey_def demo_def demo_atob_def demo_importKey_def
      demo_decrypt_def)

subsection \<open>The recipient lookup and the expiry test\<close>

lemma isRecipient_find:
  "isRecipient seal userEmail \<longleftrightarrow>
     find (\<lambda>r. toLowerCase (email r) = toLowerCase userEmail) (recipients seal) \<noteq> None"
  by (auto simp: isRecipient_def list_ex_iff find_None_iff)

lemma openSealFile_not_recipient:
  assumes "\<not> isRecipient seal userEmail"
  shows "openSealFile P seal userEmail privateKey w
    = (Inl (Exn ''Error'' ''You are not a recipient of this file''), w)"
  using assms by (simp add: isRecipient_find openSealFile_def io_throw_def)

lemma expiredAt_iff:
  assumes "expiresAt (metadata seal) = Some s" "s \<noteq> []" "date_getTime P s = Some T"
  shows "expiredAt P now seal = (if T < now then Some s else None)"
  using assms by (simp add: expiredAt_def truthy_def)

lemma expiredAt_absent:
  assumes "expiresAt (metadata seal) = None"
  shows "expiredAt P now seal = None"
  using assms by (simp add: expiredAt_def truthy_def)

lemmas run_defs = createSealFile_def openSealFile_def handleFileLoaded_def expiredAt_def
  truthy_def callerEmail_def js_or_def isRecipient_def io_defs crypto_defs viewer_defs demo_defs
  toLowerCase_demo

subsection \<open>Fields that the reader never looks at\<close>

lemma handleFileLoaded_icon:
  "step (fst (handleFileLoaded P now ue ls seal (v, w))) = ErrorStep
   \<Longrightarrow> map_option icon (error (fst (handleFileLoaded P now ue ls seal (v, w))))
        \<in> {Some Expired, Some Unauthorized, Some Generic}"
  by (auto simp: handleFileLoaded_def viewer_defs Let_def
      split: option.splits sum.splits prod.splits if_splits)

lemma openSealFile_version:
  "openSealFile P (seal\<lparr>version := n\<rparr>) userEmail privateKey = openSealFile P seal userEmail privateKey"
  by (simp add: openSealFile_def split: option.splits)

lemma openSealFile_metadata:
  "openSealFile P (seal\<lparr>metadata := m\<rparr>) userEmail privateKey = openSealFile P seal userEmail privateKey"
  by (simp add: openSealFile_def split: option.splits)

lemma handleFileLoaded_version:
  "handleFileLoaded P now ue ls (seal\<lparr>version := n\<rparr>) (v, w)
   = (fst (handleFileLoaded P now ue ls seal (v, w))\<lparr>sealFile := Some (seal\<lparr>version := n\<rparr>)\<rparr>,
      snd (handleFileLoaded P now ue ls seal (v, w)))"
proof -
  have o: "openSealFile P (seal\<lparr>version := n\<rparr>) = openSealFile P seal"
    by (simp add: openSealFile_version fun_eq_iff)
  have e: "expiredAt P now (seal\<lparr>version := n\<rparr>) = expiredAt P now seal"
    by (simp add: expiredAt_def)
  have r: "isRecipient (seal\<lparr>version := n\<rparr>) = isRecipient seal"
    by (simp add: isRecipient_def fun_eq_iff)
  show ?thesis
    unfolding handleFileLoaded_def o e r
    by (simp add: viewer_defs Let_def split: option.splits sum.splits prod.splits)
qed

subsection \<open>What the reader can throw\<close>

lemma openSealFile_throws:
  assumes "fst (openSealFile P seal userEmail privateKey w) = Inl x"
  shows "(\<not> isRecipient seal userEmail \<and> x = Exn ''Error'' ''You are not a recipient of this file'')
       \<or> platform_rejects P x"
proof (cases "isRecipient seal userEmail")
  case False
  with assms show ?thesis by (simp add: openSealFile_not_recipient)
next
  case True
  then obtain e where
    "find (\<lambda>r. toLowerCase (email r) = toLowerCase userEmail) (recipients seal) = Some e"
    by (auto simp: isRecipient_find)
  with assms have "platform_rejects P x"
    unfolding platform_rejects_def
    by (auto simp: openSealFile_def io_defs crypto_defs split: sum.splits prod.splits)
  then show ?thesis ..
qed

text \<open>The demo platform never throws the error of \<^verbatim>\<open>openSealFile\<close> itself.\<close>

lemma demo_never_not_recipient:
  "\<not> platform_rejects demo (Exn ''Error'' ''You are not a recipient of this file'')"
  by (auto simp: platform_rejects_def demo_def demo_atob_def demo_importKey_def demo_decrypt_def
      split: list.splits if_splits)

section \<open>The claims\<close>

text \<open>
  C1. Round trip: on a platform whose primitives invert each other, for any file and any
  recipient set whose entries carry valid public-key encodings, \<^verbatim>\<open>createSealFile\<close> returns
  an envelope, and \<^verbatim>\<open>openSealFile\<close> on it, with the address of any recipient \<open>r\<close> of the
  set and the private key matching the public key of \<open>r\<close>, returns the bytes, the name and
  the type of the file. A recipient is identified by its address up to letter case and has
  one key pair: entries whose addresses are equal up to letter case carry the same public
  key.
\<close>

theorem seal_open_roundtrip:
  assumes "platform_inverts P"
    and "\<forall>x\<in>set rs. valid_publicKey P (publicKey x)"
    and "\<forall>x\<in>set rs. \<forall>y\<in>set rs.
           toLowerCase (email x) = toLowerCase (email y) \<longrightarrow> publicKey x = publicKey y"
    and "r \<in> set rs"
    and "matching_privateKey P (publicKey r) privateBase64"
  shows "\<exists>env w1. createSealFile P now src rs fid m w = (Inr env, w1)
      \<and> fst (openSealFile P env (email r) privateBase64 w2)
        = Inr \<lparr>data = file_arrayBuffer src, dec_fileName = file_name src,
               dec_fileType = file_type src\<rparr>"
proof -
  from assms(4) obtain r0 where
    first: "find (\<lambda>x. toLowerCase (email x) = toLowerCase (email r)) rs = Some r0"
    and mem: "r0 \<in> set rs" and same: "toLowerCase (email r0) = toLowerCase (email r)"
    using find_same_address [of r rs toLowerCase] by blast
  from assms(3) mem assms(4) same have "publicKey r0 = publicKey r" by blast
  with assms(5) have "matching_privateKey P (publicKey r0) privateBase64" by simp
  with assms(1,2) first show ?thesis by (rule createSealFile_roundtrip)
qed

theorem seal_open_roundtrip_witness:
  "fst (openSealFile demo
         (projr (fst (createSealFile demo 5 tenBytes [alice, bob, alice_upper] ''id1'' noExpiry
            world0)))
         ''b@x.com'' ''=B'' world0)
   = Inr \<lparr>data = [1, 2, 3, 4, 5, 6, 7, 8, 9, 10], dec_fileName = ''note.txt'',
          dec_fileType = ''text/plain''\<rparr>
   \<and> fst (openSealFile demo
         (projr (fst (createSealFile demo 5 tenBytes [alice, bob, alice_upper] ''id1'' noExpiry
            world0)))
         ''A@X.com'' ''=A'' world0)
   = Inr \<lparr>data = [1, 2, 3, 4, 5, 6, 7, 8, 9, 10], dec_fileName = ''note.txt'',
          dec_fileType = ''text/plain''\<rparr>"
proof -
  let ?rs = "[alice, bob, alice_upper]"
  have valid: "\<forall>x\<in>set ?rs. valid_publicKey demo (publicKey x)"
    by (simp add: alice_def bob_def alice_upper_def demo_valid_publicKey)
  have ident: "\<forall>x\<in>set ?rs. \<forall>y\<in>set ?rs.
           toLowerCase (email x) = toLowerCase (email y) \<longrightarrow> publicKey x = publicKey y"
    by (simp add: alice_def bob_def alice_upper_def toLowerCase_demo)
  have mem: "bob \<in> set ?rs" "alice_upper \<in> set ?rs" by simp_all
  have key: "matching_privateKey demo (publicKey bob) ''=B''"
    "matching_privateKey demo (publicKey alice_upper) ''=A''"
    by (simp_all add: bob_def alice_upper_def demo_matching_privateKey)
  from seal_open_roundtrip [OF demo_inverts valid ident mem(1) key(1),
      of 5 tenBytes "''id1''" noExpiry world0 world0]
  obtain env w1 where
    "createSealFile demo 5 tenBytes ?rs ''id1'' noExpiry world0 = (Inr env, w1)"
    and "fst (openSealFile demo env (email bob) ''=B'' world0)
      = Inr \<lparr>data = file_arrayBuffer tenBytes, dec_fileName = file_name tenBytes,
             dec_fileType = file_type tenBytes\<rparr>"
    by blast
  then have b: "fst (openSealFile demo
         (projr (fst (createSealFile demo 5 tenBytes ?rs ''id1'' noExpiry world0)))
         ''b@x.com'' ''=B'' world0)
      = Inr \<lparr>data = [1, 2, 3, 4, 5, 6, 7, 8, 9, 10], dec_fileName = ''note.txt'',
          dec_fileType = ''text/plain''\<rparr>"
    by (simp add: bob_def tenBytes_def)
  from seal_open_roundtrip [OF demo_inverts valid ident mem(2) key(2),
      of 5 tenBytes "''id1''" noExpiry world0 world0]
  obtain env' w1' where
    "createSealFile demo 5 tenBytes ?rs ''id1'' noExpiry world0 = (Inr env', w1')"
    and "fst (openSealFile demo env' (email alice_upper) ''=A'' world0)
      = Inr \<lparr>data = file_arrayBuffer tenBytes, dec_fileName = file_name tenBytes,
             dec_fileType = file_type tenBytes\<rparr>"
    by blast
  then have a: "fst (openSealFile demo
         (projr (fst (createSealFile demo 5 tenBytes ?rs ''id1'' noExpiry world0)))
         ''A@X.com'' ''=A'' world0)
      = Inr \<lparr>data = [1, 2, 3, 4, 5, 6, 7, 8, 9, 10], dec_fileName = ''note.txt'',
          dec_fileType = ''text/plain''\<rparr>"
    by (simp add: alice_upper_def tenBytes_def)
  from a b show ?thesis by simp
qed

text \<open>
  C2. The authorization lookup ignores letter case and is exclusive. A caller is a recipient
  exactly when some entry has the caller's address up to letter case. For a caller that
  matches no entry, \<^verbatim>\<open>openSealFile\<close> throws \<open>You are not a recipient of this file\<close> and
  leaves the world as it was: no key is imported, nothing is unwrapped or decrypted. On a
  platform that never throws this error itself, \<^verbatim>\<open>openSealFile\<close> ends with it exactly when
  no entry matches. A caller whose address differs from a recipient's in letter case only
  succeeds: on an envelope sealed for a list in which the first entry with the caller's
  address up to case is \<open>r\<close>, \<^verbatim>\<open>openSealFile\<close> with the private key of \<open>r\<close> returns the
  file. In the viewer, on a file that has not expired, a logged-in caller that matches passes
  the validation, and a caller that matches no entry ends in the error step with the
  \<open>unauthorized\<close> icon, after the two \<^verbatim>\<open>setStep\<close> calls and no call of the crypto library.
\<close>

theorem authorization_lookup:
  "(isRecipient seal userEmail
      \<longleftrightarrow> (\<exists>r\<in>set (recipients seal). toLowerCase (email r) = toLowerCase userEmail))
   \<and> (\<not> isRecipient seal userEmail \<longrightarrow>
        openSealFile P seal userEmail privateKey w
          = (Inl (Exn ''Error'' ''You are not a recipient of this file''), w))
   \<and> (\<not> platform_rejects P (Exn ''Error'' ''You are not a recipient of this file'') \<longrightarrow>
        (fst (openSealFile P seal userEmail privateKey w)
           = Inl (Exn ''Error'' ''You are not a recipient of this file'')
         \<longleftrightarrow> \<not> (\<exists>r\<in>set (recipients seal). toLowerCase (email r) = toLowerCase userEmail)))
   \<and> (platform_inverts P \<and> (\<forall>x\<in>set rs. valid_publicKey P (publicKey x))
        \<and> find (\<lambda>x. toLowerCase (email x) = toLowerCase userEmail) rs = Some r
        \<and> matching_privateKey P (publicKey r) privateKey \<longrightarrow>
        (\<exists>env w1. createSealFile P built src rs fid m w0 = (Inr env, w1)
           \<and> fst (openSealFile P env userEmail privateKey w)
               = Inr \<lparr>data = file_arrayBuffer src, dec_fileName = file_name src,
                      dec_fileType = file_type src\<rparr>))
   \<and> (expiredAt P now seal = None \<and> callerEmail ue ls \<noteq> []
        \<and> isRecipient seal (callerEmail ue ls) \<longrightarrow>
        (\<exists>evs. trace (snd (handleFileLoaded P now ue ls seal (v, w)))
           = trace w @ [SetStep Validating, SetStep Decrypting] @ evs))
   \<and> (expiredAt P now seal = None \<and> \<not> isRecipient seal (callerEmail ue ls) \<longrightarrow>
        step (fst (handleFileLoaded P now ue ls seal (v, w))) = ErrorStep
        \<and> map_option icon (error (fst (handleFileLoaded P now ue ls seal (v, w)))) = Some Unauthorized
        \<and> snd (handleFileLoaded P now ue ls seal (v, w))
            = w\<lparr>trace := trace w @ [SetStep Validating, SetStep ErrorStep]\<rparr>)"
proof (intro conjI impI)
  show iff: "isRecipient seal userEmail
      \<longleftrightarrow> (\<exists>r\<in>set (recipients seal). toLowerCase (email r) = toLowerCase userEmail)"
    by (simp add: isRecipient_def list_ex_iff)
  assume clean: "\<not> platform_rejects P (Exn ''Error'' ''You are not a recipient of this file'')"
  show "fst (openSealFile P seal userEmail privateKey w)
           = Inl (Exn ''Error'' ''You are not a recipient of this file'')
         \<longleftrightarrow> \<not> (\<exists>r\<in>set (recipients seal). toLowerCase (email r) = toLowerCase userEmail)"
  proof
    assume "fst (openSealFile P seal userEmail privateKey w)
           = Inl (Exn ''Error'' ''You are not a recipient of this file'')"
    from openSealFile_throws [OF this] clean have "\<not> isRecipient seal userEmail" by blast
    with iff show "\<not> (\<exists>r\<in>set (recipients seal). toLowerCase (email r) = toLowerCase userEmail)"
      by simp
  next
    assume "\<not> (\<exists>r\<in>set (recipients seal). toLowerCase (email r) = toLowerCase userEmail)"
    with iff have "\<not> isRecipient seal userEmail" by simp
    then show "fst (openSealFile P seal userEmail privateKey w)
           = Inl (Exn ''Error'' ''You are not a recipient of this file'')"
      by (simp add: openSealFile_not_recipient)
  qed
next
  assume "\<not> isRecipient seal userEmail"
  then show "openSealFile P seal userEmail privateKey w
          = (Inl (Exn ''Error'' ''You are not a recipient of this file''), w)"
    by (rule openSealFile_not_recipient)
next
  assume "platform_inverts P \<and> (\<forall>x\<in>set rs. valid_publicKey P (publicKey x))
        \<and> find (\<lambda>x. toLowerCase (email x) = toLowerCase userEmail) rs = Some r
        \<and> matching_privateKey P (publicKey r) privateKey"
  then show "\<exists>env w1. createSealFile P built src rs fid m w0 = (Inr env, w1)
           \<and> fst (openSealFile P env userEmail privateKey w)
               = Inr \<lparr>data = file_arrayBuffer src, dec_fileName = file_name src,
                      dec_fileType = file_type src\<rparr>"
    using createSealFile_roundtrip [of P rs userEmail r privateKey built src fid m w0 w]
    by blast
next
  assume "expiredAt P now seal = None \<and> callerEmail ue ls \<noteq> []
        \<and> isRecipient seal (callerEmail ue ls)"
  then show "\<exists>evs. trace (snd (handleFileLoaded P now ue ls seal (v, w)))
           = trace w @ [SetStep Validating, SetStep Decrypting] @ evs"
    using handleFileLoaded_validated [of P now seal ue ls v w] by simp
next
  assume a: "expiredAt P now seal = None \<and> \<not> isRecipient seal (callerEmail ue ls)"
  show "step (fst (handleFileLoaded P now ue ls seal (v, w))) = ErrorStep"
    using a handleFileLoaded_not_logged_in [of P now seal ue ls v w]
      handleFileLoaded_not_authorized [of P now seal ue ls v w]
    by (cases "callerEmail ue ls = []") simp_all
  show "map_option icon (error (fst (handleFileLoaded P now ue ls seal (v, w)))) = Some Unauthorized"
    using a handleFileLoaded_not_logged_in [of P now seal ue ls v w]
      handleFileLoaded_not_authorized [of P now seal ue ls v w]
    by (cases "callerEmail ue ls = []") simp_all
  show "snd (handleFileLoaded P now ue ls seal (v, w))
            = w\<lparr>trace := trace w @ [SetStep Validating, SetStep ErrorStep]\<rparr>"
    using a handleFileLoaded_not_logged_in [of P now seal ue ls v w]
      handleFileLoaded_not_authorized [of P now seal ue ls v w]
    by (cases "callerEmail ue ls = []") simp_all
qed

theorem authorization_lookup_witness:
  "length (recipients sealedForTwo) = 2
   \<and> fst (openSealFile demo sealedForTwo ''A@X.com'' ''=A'' world0)
       = Inr \<lparr>data = [1, 2, 3, 4, 5, 6, 7, 8, 9, 10], dec_fileName = ''note.txt'',
              dec_fileType = ''text/plain''\<rparr>
   \<and> map email (recipients sealedForUpper) = [''A@X.com'', ''b@x.com'']
   \<and> fst (openSealFile demo sealedForUpper ''a@x.com'' ''=A'' world0)
       = Inr \<lparr>data = [1, 2, 3, 4, 5, 6, 7, 8, 9, 10], dec_fileName = ''note.txt'',
              dec_fileType = ''text/plain''\<rparr>
   \<and> step (fst (handleFileLoaded demo 7 (Some ''A@X.com'') keyOfAlice sealedForTwo
         (viewer0, world0))) = Viewing
   \<and> step (fst (handleFileLoaded demo 7 (Some ''a@x.com'') keyOfAlice sealedForUpper
         (viewer0, world0))) = Viewing
   \<and> openSealFile demo sealedForTwo ''c@x.com'' ''=A'' world0
       = (Inl (Exn ''Error'' ''You are not a recipient of this file''), world0)
   \<and> map_option icon (error (fst (handleFileLoaded demo 7 (Some ''c@x.com'') keyOfAlice
         sealedForTwo (viewer0, world0)))) = Some Unauthorized
   \<and> trace (snd (handleFileLoaded demo 7 (Some ''c@x.com'') keyOfAlice sealedForTwo
         (viewer0, world0))) = [SetStep Validating, SetStep ErrorStep]"
proof -
  have n: "length (recipients sealedForTwo) = 2"
    "map email (recipients sealedForUpper) = [''A@X.com'', ''b@x.com'']"
    by (simp_all add: run_defs)
  have ex: "expiredAt demo 7 sealedForTwo = None" by (simp add: run_defs)
  have cc: "callerEmail (Some ''c@x.com'') keyOfAlice = ''c@x.com''"
    by (simp add: callerEmail_def js_or_def truthy_def)
  have rc: "\<not> isRecipient sealedForTwo ''c@x.com''" by (simp add: run_defs)
  have va: "step (fst (handleFileLoaded demo 7 (Some ''A@X.com'') keyOfAlice sealedForTwo
         (viewer0, world0))) = Viewing"
    "step (fst (handleFileLoaded demo 7 (Some ''a@x.com'') keyOfAlice sealedForUpper
         (viewer0, world0))) = Viewing"
    by (simp_all add: run_defs)
  have valid: "\<forall>x\<in>set [alice, bob]. valid_publicKey demo (publicKey x)"
    "\<forall>x\<in>set [alice_upper, bob]. valid_publicKey demo (publicKey x)"
    by (simp_all add: alice_def bob_def alice_upper_def demo_valid_publicKey)
  have first:
    "find (\<lambda>x. toLowerCase (email x) = toLowerCase ''A@X.com'') [alice, bob] = Some alice"
    "find (\<lambda>x. toLowerCase (email x) = toLowerCase ''a@x.com'') [alice_upper, bob]
       = Some alice_upper"
    by (simp_all add: alice_def bob_def alice_upper_def toLowerCase_demo)
  have key: "matching_privateKey demo (publicKey alice) ''=A''"
    "matching_privateKey demo (publicKey alice_upper) ''=A''"
    by (simp_all add: alice_def alice_upper_def demo_matching_privateKey)
  have "\<exists>env w1. createSealFile demo 5 tenBytes [alice, bob] ''id1'' noExpiry world0 = (Inr env, w1)
          \<and> fst (openSealFile demo env ''A@X.com'' ''=A'' world0)
               = Inr \<lparr>data = file_arrayBuffer tenBytes, dec_fileName = file_name tenBytes,
                      dec_fileType = file_type tenBytes\<rparr>"
    using authorization_lookup
      [where P = demo and userEmail = "''A@X.com''" and privateKey = "''=A''" and w = world0
         and rs = "[alice, bob]" and r = alice and built = 5 and src = tenBytes
         and fid = "''id1''" and m = noExpiry and w0 = world0,
       THEN conjunct2, THEN conjunct2, THEN conjunct2, THEN conjunct1]
      demo_inverts valid(1) first(1) key(1)
    by simp
  then have oa: "fst (openSealFile demo sealedForTwo ''A@X.com'' ''=A'' world0)
       = Inr \<lparr>data = [1, 2, 3, 4, 5, 6, 7, 8, 9, 10], dec_fileName = ''note.txt'',
              dec_fileType = ''text/plain''\<rparr>"
    by (auto simp: sealedForTwo_def tenBytes_def)
  have "\<exists>env w1. createSealFile demo 5 tenBytes [alice_upper, bob] ''id3'' noExpiry world0
            = (Inr env, w1)
          \<and> fst (openSealFile demo env ''a@x.com'' ''=A'' world0)
               = Inr \<lparr>data = file_arrayBuffer tenBytes, dec_fileName = file_name tenBytes,
                      dec_fileType = file_type tenBytes\<rparr>"
    using authorization_lookup
      [where P = demo and userEmail = "''a@x.com''" and privateKey = "''=A''" and w = world0
         and rs = "[alice_upper, bob]" and r = alice_upper and built = 5 and src = tenBytes
         and fid = "''id3''" and m = noExpiry and w0 = world0,
       THEN conjunct2, THEN conjunct2, THEN conjunct2, THEN conjunct1]
      demo_inverts valid(2) first(2) key(2)
    by simp
  then have ou: "fst (openSealFile demo sealedForUpper ''a@x.com'' ''=A'' world0)
       = Inr \<lparr>data = [1, 2, 3, 4, 5, 6, 7, 8, 9, 10], dec_fileName = ''note.txt'',
              dec_fileType = ''text/plain''\<rparr>"
    by (auto simp: sealedForUpper_def tenBytes_def)
  from authorization_lookup
         [where seal = sealedForTwo and userEmail = "''c@x.com''" and P = demo
            and privateKey = "''=A''" and w = world0 and now = 7 and ue = "Some ''c@x.com''"
            and ls = keyOfAlice and v = viewer0 and rs = "[]" and r = alice and built = 5
            and src = tenBytes and fid = "''id1''" and m = noExpiry and w0 = world0]
       ex cc rc n oa ou va demo_never_not_recipient
  show ?thesis by (simp add: world0_def)
qed

text \<open>
  C3. The expiry is checked before the authorization: for an envelope whose
  \<^verbatim>\<open>metadata.expiresAt\<close> is a date before the current time, the validation ends in the
  error step with the \<open>expired\<close> icon, after the two \<^verbatim>\<open>setStep\<close> calls only. The
  outcome does not depend on who the caller is or on the local storage: the recipient
  check is not reached.
\<close>

theorem expiry_before_authorization:
  assumes "expiresAt (metadata seal) = Some s" and "s \<noteq> []"
    and "date_getTime P s = Some expiry" and "expiry < now"
  shows "handleFileLoaded P now ue ls seal (v, w) =
      (v\<lparr>step := ErrorStep, sealFile := Some seal,
         error := Some \<lparr>title = ''File expired'',
               message = ''This file expired on '' @ toLocaleDateString P s
                 @ ''. The sender would need to re-encrypt and send it again.'',
               icon = Expired\<rparr>\<rparr>,
       w\<lparr>trace := trace w @ [SetStep Validating, SetStep ErrorStep]\<rparr>)
    \<and> handleFileLoaded P now ue ls seal (v, w) = handleFileLoaded P now ue' ls' seal (v, w)"
proof -
  have "expiredAt P now seal = Some s"
    using assms by (simp add: expiredAt_iff)
  then show ?thesis by (simp add: handleFileLoaded_expired)
qed

theorem expiry_before_authorization_witness:
  "\<not> isRecipient sealedUntil100 ''c@x.com''
   \<and> step (fst (handleFileLoaded demo 101 (Some ''c@x.com'') Map.empty sealedUntil100
         (viewer0, world0))) = ErrorStep
   \<and> map_option icon (error (fst (handleFileLoaded demo 101 (Some ''c@x.com'') Map.empty
         sealedUntil100 (viewer0, world0)))) = Some Expired
   \<and> trace (snd (handleFileLoaded demo 101 (Some ''c@x.com'') Map.empty sealedUntil100
         (viewer0, world0))) = [SetStep Validating, SetStep ErrorStep]"
proof -
  have a: "expiresAt (metadata sealedUntil100) = Some ''100''"
    by (simp add: run_defs)
  have b: "''100'' \<noteq> []" by simp
  have c: "date_getTime demo ''100'' = Some 100"
    by (simp add: demo_def demo_getTime_def demo_digit_def)
  have d: "(100::int) < 101" by simp
  have e: "\<not> isRecipient sealedUntil100 ''c@x.com''"
    by (simp add: run_defs)
  from expiry_before_authorization [OF a b c d, of "Some ''c@x.com''" Map.empty viewer0 world0] e
  show ?thesis by (simp add: world0_def)
qed

text \<open>
  C4. All-or-nothing build: when the wrapping fails for one of the requested recipients
  (its public key does not import, or the encryption of the AES key under it is rejected),
  \<^verbatim>\<open>createSealFile\<close> returns no envelope; and an envelope that it does return has one entry
  for each requested recipient, in the order of the request, so none is left out.
\<close>

theorem createSealFile_all_or_nothing:
  "(r \<in> set rs
      \<and> (\<forall>k w. isl (fst (io_bind (importPublicKey P (publicKey r))
                           (encryptKeyForRecipient P k) w)))
      \<longrightarrow> isl (fst (createSealFile P now file rs fid m w)))
   \<and> (fst (createSealFile P now file rs fid m w) = Inr env
      \<longrightarrow> map email (recipients env) = map email rs)"
proof (intro conjI impI)
  assume a: "r \<in> set rs
      \<and> (\<forall>k w. isl (fst (io_bind (importPublicKey P (publicKey r))
                           (encryptKeyForRecipient P k) w)))"
  have "wrapForRecipients P k rs acc w' \<noteq> (Inr ks, w'')" for k acc w' ks w''
    using wrapForRecipients_fails [of r rs P k acc w'] a by auto
  then show "isl (fst (createSealFile P now file rs fid m w))"
    by (auto simp: createSealFile_def io_bind_def io_return_def split: prod.splits sum.splits)
next
  assume "fst (createSealFile P now file rs fid m w) = Inr env"
  then show "map email (recipients env) = map email rs"
    by (auto simp: createSealFile_def io_bind_def io_return_def split: prod.splits sum.splits
        dest: wrapForRecipients_emails)
qed

theorem createSealFile_all_or_nothing_witness:
  "isl (fst (createSealFile demo 5 tenBytes [alice, mallory, bob] ''id1'' noExpiry world0))
   \<and> map email (recipients (projr (fst
        (createSealFile demo 5 tenBytes [alice, bob] ''id1'' noExpiry world0))))
     = [''a@x.com'', ''b@x.com'']"
proof -
  have bad: "\<forall>k w. isl (fst (io_bind (importPublicKey demo (publicKey mallory))
                           (encryptKeyForRecipient demo k) w))"
    by (simp add: io_defs importPublicKey_def mallory_def demo_def demo_atob_def
        demo_importKey_def)
  have mem: "mallory \<in> set [alice, mallory, bob]" by simp
  let ?good = "fst (createSealFile demo 5 tenBytes [alice, bob] ''id1'' noExpiry world0)"
  have "\<not> isl ?good"
    by (simp add: createSealFile_def io_defs crypto_defs demo_defs)
  then have good: "?good = Inr (projr ?good)" by simp
  from createSealFile_all_or_nothing
         [of mallory "[alice, mallory, bob]" demo 5 tenBytes "''id1''" noExpiry world0]
       createSealFile_all_or_nothing
         [of alice "[alice, bob]" demo 5 tenBytes "''id1''" noExpiry world0 "projr ?good"]
       bad mem good
  show ?thesis by (simp add: alice_def bob_def)
qed

text \<open>
  C5, as amended. \<^verbatim>\<open>handleFileLoaded\<close> and \<^verbatim>\<open>openSealFile\<close> make no structural check of the
  envelope. The \<^verbatim>\<open>version\<close> is never read: with any other version the outcome of
  \<^verbatim>\<open>openSealFile\<close> and the step, the error, the decrypted file and the effects of the viewer
  are the same. An envelope with an empty \<^verbatim>\<open>recipients\<close> list is treated as an envelope that
  is not addressed to the caller: \<^verbatim>\<open>openSealFile\<close> throws
  \<open>You are not a recipient of this file\<close>, and the viewer reports \<open>unauthorized\<close>, and only
  after the expiry test, which reports \<open>expired\<close> first. No error of the viewer carries the
  \<open>invalid\<close> icon.
\<close>

theorem no_structural_validation:
  "openSealFile P (seal\<lparr>version := n\<rparr>) userEmail privateKey w
     = openSealFile P seal userEmail privateKey w
   \<and> step (fst (handleFileLoaded P now ue ls (seal\<lparr>version := n\<rparr>) (v, w)))
       = step (fst (handleFileLoaded P now ue ls seal (v, w)))
   \<and> error (fst (handleFileLoaded P now ue ls (seal\<lparr>version := n\<rparr>) (v, w)))
       = error (fst (handleFileLoaded P now ue ls seal (v, w)))
   \<and> decryptedFile (fst (handleFileLoaded P now ue ls (seal\<lparr>version := n\<rparr>) (v, w)))
       = decryptedFile (fst (handleFileLoaded P now ue ls seal (v, w)))
   \<and> snd (handleFileLoaded P now ue ls (seal\<lparr>version := n\<rparr>) (v, w))
       = snd (handleFileLoaded P now ue ls seal (v, w))
   \<and> (recipients seal = [] \<longrightarrow>
        openSealFile P seal userEmail privateKey w
          = (Inl (Exn ''Error'' ''You are not a recipient of this file''), w))
   \<and> (recipients seal = [] \<and> expiredAt P now seal = None \<longrightarrow>
        step (fst (handleFileLoaded P now ue ls seal (v, w))) = ErrorStep
        \<and> map_option icon (error (fst (handleFileLoaded P now ue ls seal (v, w))))
            = Some Unauthorized)
   \<and> (recipients seal = [] \<and> expiredAt P now seal \<noteq> None \<longrightarrow>
        step (fst (handleFileLoaded P now ue ls seal (v, w))) = ErrorStep
        \<and> map_option icon (error (fst (handleFileLoaded P now ue ls seal (v, w))))
            = Some Expired)
   \<and> (step (fst (handleFileLoaded P now ue ls seal (v, w))) = ErrorStep \<longrightarrow>
        map_option icon (error (fst (handleFileLoaded P now ue ls seal (v, w))))
          \<in> {Some Expired, Some Unauthorized, Some Generic})"
proof -
  have nr: "recipients seal = [] \<Longrightarrow> \<not> isRecipient seal a" for a
    by (simp add: isRecipient_def)
  have unauth: "step (fst (handleFileLoaded P now ue ls seal (v, w))) = ErrorStep
        \<and> map_option icon (error (fst (handleFileLoaded P now ue ls seal (v, w))))
            = Some Unauthorized"
    if "recipients seal = []" "expiredAt P now seal = None"
    using that nr [of "callerEmail ue ls"]
      handleFileLoaded_not_logged_in [of P now seal ue ls v w]
      handleFileLoaded_not_authorized [of P now seal ue ls v w]
    by (cases "callerEmail ue ls = []") simp_all
  have expd: "step (fst (handleFileLoaded P now ue ls seal (v, w))) = ErrorStep
        \<and> map_option icon (error (fst (handleFileLoaded P now ue ls seal (v, w))))
            = Some Expired"
    if "expiredAt P now seal \<noteq> None"
    using that handleFileLoaded_expired [of P now seal _ ue ls v w] by auto
  show ?thesis
    using unauth expd nr [of userEmail] handleFileLoaded_icon [of P now ue ls seal v w]
      openSealFile_not_recipient [of seal userEmail P privateKey w]
    by (simp add: handleFileLoaded_version openSealFile_version)
qed

theorem no_structural_validation_counterexample:
  "version (sealedForTwo\<lparr>version := 99\<rparr>) \<noteq> 1
   \<and> fst (openSealFile demo (sealedForTwo\<lparr>version := 99\<rparr>) ''a@x.com'' ''=A'' world0)
      = Inr \<lparr>data = [1, 2, 3, 4, 5, 6, 7, 8, 9, 10], dec_fileName = ''note.txt'',
             dec_fileType = ''text/plain''\<rparr>
   \<and> take 2 (trace (snd (handleFileLoaded demo 7 (Some ''a@x.com'') keyOfAlice
        (sealedForTwo\<lparr>version := 99\<rparr>) (viewer0, world0))))
      = [SetStep Validating, SetStep Decrypting]
   \<and> step (fst (handleFileLoaded demo 7 (Some ''a@x.com'') keyOfAlice
        (sealedForTwo\<lparr>version := 99\<rparr>) (viewer0, world0))) = Viewing
   \<and> decryptedFile (fst (handleFileLoaded demo 7 (Some ''a@x.com'') keyOfAlice
        (sealedForTwo\<lparr>version := 99\<rparr>) (viewer0, world0)))
      = Some \<lparr>data = [1, 2, 3, 4, 5, 6, 7, 8, 9, 10], dec_fileName = ''note.txt'',
              dec_fileType = ''text/plain''\<rparr>
   \<and> map_option title (error (fst (handleFileLoaded demo 7 (Some ''a@x.com'') keyOfAlice
        (sealedForTwo\<lparr>recipients := []\<rparr>) (viewer0, world0)))) = Some ''Not authorized''"
  by (simp add: run_defs)

theorem no_structural_validation_witness:
  "map_option icon (error (fst (handleFileLoaded demo 7 (Some ''a@x.com'') keyOfAlice
        (sealedForTwo\<lparr>recipients := []\<rparr>) (viewer0, world0)))) = Some Unauthorized
   \<and> map_option icon (error (fst (handleFileLoaded demo 101 (Some ''a@x.com'') keyOfAlice
        (sealedUntil100\<lparr>recipients := []\<rparr>) (viewer0, world0)))) = Some Expired
   \<and> fst (openSealFile demo (sealedForTwo\<lparr>recipients := []\<rparr>) ''a@x.com'' ''=A'' world0)
       = Inl (Exn ''Error'' ''You are not a recipient of this file'')"
proof -
  have a: "recipients (sealedForTwo\<lparr>recipients := []\<rparr>) = []"
    "recipients (sealedUntil100\<lparr>recipients := []\<rparr>) = []" by simp_all
  have b: "expiredAt demo 7 (sealedForTwo\<lparr>recipients := []\<rparr>) = None"
    by (simp add: run_defs)
  have c: "expiredAt demo 101 (sealedUntil100\<lparr>recipients := []\<rparr>) \<noteq> None"
    by (simp add: run_defs)
  from no_structural_validation
         [where P = demo and seal = "sealedForTwo\<lparr>recipients := []\<rparr>" and n = 1
            and userEmail = "''a@x.com''" and privateKey = "''=A''" and w = world0 and now = 7
            and ue = "Some ''a@x.com''" and ls = keyOfAlice and v = viewer0]
       no_structural_validation
         [where P = demo and seal = "sealedUntil100\<lparr>recipients := []\<rparr>" and n = 1
            and userEmail = "''a@x.com''" and privateKey = "''=A''" and w = world0 and now = 101
            and ue = "Some ''a@x.com''" and ls = keyOfAlice and v = viewer0]
       a b c
  show ?thesis by simp
qed

text \<open>
  C6, as amended. \<^verbatim>\<open>createSealFile\<close> does not reject an empty recipient list. It generates
  the key and encrypts the file as for any list, the loop over the recipients does nothing,
  and unless the platform rejects the encryption of the file the call returns an envelope
  whose \<^verbatim>\<open>recipients\<close> list is empty. Its only failure is the exception of the platform.
\<close>

theorem createSealFile_empty_recipients:
  "createSealFile P now file [] fid m w =
     (case encrypt_aes P (generateKey_aes P (draws w)) (getRandomValues P (Suc (draws w)) 12)
             (file_arrayBuffer file) of
        Inl e \<Rightarrow> Inl e
      | Inr c \<Rightarrow>
          Inr \<lparr>version = 1, fileId = fid, fileName = file_name file, fileType = file_type file,
               fileSize = length (file_arrayBuffer file),
               encryptedData = arrayBufferToBase64 P c,
               iv = arrayBufferToBase64 P (getRandomValues P (Suc (draws w)) 12),
               recipients = [],
               metadata = m\<lparr>createdAt := Some (toISOString P now)\<rparr>\<rparr>,
      w\<lparr>trace := trace w @ [GenerateKey, GetRandomValues, Encrypt AES_GCM],
        draws := Suc (Suc (draws w))\<rparr>)"
  by (simp add: createSealFile_def io_defs generateFileEncryptionKey_def encryptFile_def
      split: sum.splits)

theorem createSealFile_empty_recipients_counterexample:
  "\<not> isl (fst (createSealFile demo 5 tenBytes [] ''id1'' noExpiry world0))
   \<and> recipients (projr (fst (createSealFile demo 5 tenBytes [] ''id1'' noExpiry world0))) = []"
  by (simp add: run_defs)

text \<open>
  C7. The expiry boundary, for an authorized caller and an envelope whose
  \<^verbatim>\<open>metadata.expiresAt\<close> is the date \<open>T\<close>: at the time \<open>T - 1\<close> and at the time \<open>T\<close> itself
  the validation passes and the viewer enters the decrypting step; at \<open>T + 1\<close> it ends in
  the error step with the \<open>expired\<close> icon. The comparison is strict: the file has expired
  exactly when the current time is greater than \<open>T\<close>. An envelope without \<^verbatim>\<open>expiresAt\<close>
  passes at every time.
\<close>

theorem expiry_boundary:
  assumes "callerEmail ue ls \<noteq> []" and "isRecipient seal (callerEmail ue ls)"
  shows "(expiresAt (metadata seal) = Some s \<and> s \<noteq> [] \<and> date_getTime P s = Some T \<longrightarrow>
            (\<exists>evs. trace (snd (handleFileLoaded P (T - 1) ue ls seal (v, w)))
               = trace w @ [SetStep Validating, SetStep Decrypting] @ evs)
          \<and> (\<exists>evs. trace (snd (handleFileLoaded P T ue ls seal (v, w)))
               = trace w @ [SetStep Validating, SetStep Decrypting] @ evs)
          \<and> step (fst (handleFileLoaded P (T + 1) ue ls seal (v, w))) = ErrorStep
          \<and> map_option icon (error (fst (handleFileLoaded P (T + 1) ue ls seal (v, w))))
              = Some Expired
          \<and> (expiredAt P now seal \<noteq> None \<longleftrightarrow> T < now))
       \<and> (expiresAt (metadata seal) = None \<longrightarrow>
            (\<exists>evs. trace (snd (handleFileLoaded P now ue ls seal (v, w)))
               = trace w @ [SetStep Validating, SetStep Decrypting] @ evs))"
proof (intro conjI impI)
  assume a: "expiresAt (metadata seal) = Some s \<and> s \<noteq> [] \<and> date_getTime P s = Some T"
  then have ex: "expiredAt P t seal = (if T < t then Some s else None)" for t
    by (simp add: expiredAt_iff)
  show "\<exists>evs. trace (snd (handleFileLoaded P (T - 1) ue ls seal (v, w)))
               = trace w @ [SetStep Validating, SetStep Decrypting] @ evs"
    using handleFileLoaded_validated [of P "T - 1" seal ue ls v w] assms ex by simp
  show "\<exists>evs. trace (snd (handleFileLoaded P T ue ls seal (v, w)))
               = trace w @ [SetStep Validating, SetStep Decrypting] @ evs"
    using handleFileLoaded_validated [of P T seal ue ls v w] assms ex by simp
  show "step (fst (handleFileLoaded P (T + 1) ue ls seal (v, w))) = ErrorStep"
    using handleFileLoaded_expired [of P "T + 1" seal s ue ls v w] ex by simp
  show "map_option icon (error (fst (handleFileLoaded P (T + 1) ue ls seal (v, w))))
              = Some Expired"
    using handleFileLoaded_expired [of P "T + 1" seal s ue ls v w] ex by simp
  show "expiredAt P now seal \<noteq> None \<longleftrightarrow> T < now"
    using ex by simp
next
  assume "expiresAt (metadata seal) = None"
  then have "expiredAt P now seal = None" by (rule expiredAt_absent)
  then show "\<exists>evs. trace (snd (handleFileLoaded P now ue ls seal (v, w)))
               = trace w @ [SetStep Validating, SetStep Decrypting] @ evs"
    using handleFileLoaded_validated [of P now seal ue ls v w] assms by simp
qed

theorem expiry_boundary_witness:
  "step (fst (handleFileLoaded demo 99 (Some ''a@x.com'') keyOfAlice sealedUntil100
        (viewer0, world0))) = Viewing
   \<and> step (fst (handleFileLoaded demo 100 (Some ''a@x.com'') keyOfAlice sealedUntil100
        (viewer0, world0))) = Viewing
   \<and> map_option icon (error (fst (handleFileLoaded demo 101 (Some ''a@x.com'') keyOfAlice
        sealedUntil100 (viewer0, world0)))) = Some Expired
   \<and> step (fst (handleFileLoaded demo 1000000000000000 (Some ''a@x.com'') keyOfAlice sealedForTwo
        (viewer0, world0))) = Viewing"
proof -
  have e: "callerEmail (Some ''a@x.com'') keyOfAlice \<noteq> []"
    by (simp add: callerEmail_def js_or_def truthy_def)
  have r: "isRecipient sealedUntil100 (callerEmail (Some ''a@x.com'') keyOfAlice)"
    by (simp add: run_defs)
  have r': "isRecipient sealedForTwo (callerEmail (Some ''a@x.com'') keyOfAlice)"
    by (simp add: run_defs)
  have a: "expiresAt (metadata sealedUntil100) = Some ''100'' \<and> ''100'' \<noteq> []
      \<and> date_getTime demo ''100'' = Some 100"
    by (simp add: run_defs)
  have a': "expiresAt (metadata sealedForTwo) = None"
    by (simp add: run_defs)
  have v1: "step (fst (handleFileLoaded demo 99 (Some ''a@x.com'') keyOfAlice sealedUntil100
        (viewer0, world0))) = Viewing"
    by (simp add: run_defs)
  have v2: "step (fst (handleFileLoaded demo 100 (Some ''a@x.com'') keyOfAlice sealedUntil100
        (viewer0, world0))) = Viewing"
    by (simp add: run_defs)
  have v3: "step (fst (handleFileLoaded demo 1000000000000000 (Some ''a@x.com'') keyOfAlice
        sealedForTwo (viewer0, world0))) = Viewing"
    by (simp add: run_defs)
  from expiry_boundary [OF e r, of "''100''" demo 100 viewer0 world0 0] a
    expiry_boundary [OF e r', of "''100''" demo 100 viewer0 world0 1000000000000000] a'
    v1 v2 v3
  show ?thesis by simp
qed

text \<open>
  C8, as amended. \<^verbatim>\<open>importPublicKey\<close> and \<^verbatim>\<open>importPrivateKey\<close> have no error kind of their
  own. For a text that is not valid base64 they fail with the exception that \<^verbatim>\<open>atob\<close>
  throws, before any key import. Otherwise their outcome is that of the platform's
  \<^verbatim>\<open>importKey\<close> on the decoded bytes: its exception when the bytes are not a well-formed
  key, and a key handle only when \<^verbatim>\<open>importKey\<close> returns one.
\<close>

theorem key_import_failures:
  "(atob P base64Key = Inl e \<longrightarrow>
       importPublicKey P base64Key w = (Inl e, w) \<and> importPrivateKey P base64Key w = (Inl e, w))
   \<and> (atob P base64Key = Inr bin \<longrightarrow>
       importPublicKey P base64Key w
         = (importKey_spki P (binaryToBytes bin), w\<lparr>trace := trace w @ [ImportKey Spki]\<rparr>)
       \<and> importPrivateKey P base64Key w
         = (importKey_pkcs8 P (binaryToBytes bin), w\<lparr>trace := trace w @ [ImportKey Pkcs8]\<rparr>))"
  by (simp add: importPublicKey_def importPrivateKey_def io_defs)

theorem key_import_failures_witness:
  "importPublicKey demo ''A'' world0
     = (Inl (Exn ''InvalidCharacterError'' ''The string to be decoded is not correctly encoded.''),
        world0)
   \<and> fst (importPrivateKey demo ''=XY'' world0) = Inl (Exn ''DataError'' [])
   \<and> fst (importPublicKey demo ''=A'' world0) = Inr 65"
proof -
  have a: "atob demo ''A''
      = Inl (Exn ''InvalidCharacterError'' ''The string to be decoded is not correctly encoded.'')"
    by (simp add: demo_def demo_atob_def)
  have b: "atob demo ''=XY'' = Inr ''XY''" "atob demo ''=A'' = Inr ''A''"
    by (simp_all add: demo_def demo_atob_def)
  from key_import_failures [where P = demo and base64Key = "''A''" and w = world0] a
    key_import_failures [where P = demo and base64Key = "''=XY''" and w = world0] b(1)
    key_import_failures [where P = demo and base64Key = "''=A''" and w = world0] b(2)
  show ?thesis by (simp add: demo_def demo_importKey_def)
qed

theorem key_import_failures_counterexample:
  "fst (importPublicKey demo ''A'' world0)
     = Inl (Exn ''InvalidCharacterError'' ''The string to be decoded is not correctly encoded.'')
   \<and> exn_name (projl (fst (importPublicKey demo ''A'' world0))) \<noteq> ''KeyFormatError''
   \<and> fst (importPrivateKey demo ''=XY'' world0) = Inl (Exn ''DataError'' [])
   \<and> exn_name (projl (fst (importPrivateKey demo ''=XY'' world0))) \<noteq> ''KeyFormatError''"
  by (simp add: importPublicKey_def importPrivateKey_def io_defs demo_defs)

text \<open>
  C9. \<^verbatim>\<open>openSealFile\<close> makes no expiry check. Its outcome does not depend on the metadata
  of the envelope. It throws only for a caller that is no recipient, or with an exception
  of a platform primitive. The expiry is enforced by the validation of the viewer, which
  reports an expired envelope before any call of the crypto library. So an envelope sealed
  with an \<^verbatim>\<open>expiresAt\<close> that lies in the past at the time of opening is reported as
  expired by the viewer, and \<^verbatim>\<open>openSealFile\<close>, called with the address of a recipient
  and the matching private key, still returns the bytes of the file.
\<close>

theorem openSealFile_no_expiry_check:
  "openSealFile P (seal\<lparr>metadata := m\<rparr>) userEmail privateKey w
     = openSealFile P seal userEmail privateKey w
   \<and> (fst (openSealFile P seal userEmail privateKey w) = Inl x \<longrightarrow>
        (\<not> isRecipient seal userEmail
           \<and> x = Exn ''Error'' ''You are not a recipient of this file'')
        \<or> platform_rejects P x)
   \<and> (expiredAt P now seal \<noteq> None \<longrightarrow>
        step (fst (handleFileLoaded P now ue ls seal (v, w))) = ErrorStep
        \<and> map_option icon (error (fst (handleFileLoaded P now ue ls seal (v, w)))) = Some Expired
        \<and> snd (handleFileLoaded P now ue ls seal (v, w))
            = w\<lparr>trace := trace w @ [SetStep Validating, SetStep ErrorStep]\<rparr>)
   \<and> (platform_inverts P \<and> (\<forall>x\<in>set rs. valid_publicKey P (publicKey x))
        \<and> find (\<lambda>x. toLowerCase (email x) = toLowerCase userEmail) rs = Some r
        \<and> matching_privateKey P (publicKey r) privateKey
        \<and> expiresAt m' = Some s \<and> s \<noteq> [] \<and> date_getTime P s = Some T \<and> T < now \<longrightarrow>
        (\<exists>env w1. createSealFile P built src rs fid m' w0 = (Inr env, w1)
           \<and> expiredAt P now env = Some s
           \<and> fst (openSealFile P env userEmail privateKey w)
               = Inr \<lparr>data = file_arrayBuffer src, dec_fileName = file_name src,
                      dec_fileType = file_type src\<rparr>))"
proof (intro conjI impI)
  show "openSealFile P (seal\<lparr>metadata := m\<rparr>) userEmail privateKey w
     = openSealFile P seal userEmail privateKey w"
    by (simp add: openSealFile_metadata)
next
  assume "fst (openSealFile P seal userEmail privateKey w) = Inl x"
  then show "(\<not> isRecipient seal userEmail
           \<and> x = Exn ''Error'' ''You are not a recipient of this file'')
        \<or> platform_rejects P x"
    by (rule openSealFile_throws)
next
  assume a: "expiredAt P now seal \<noteq> None"
  then obtain s' where s': "expiredAt P now seal = Some s'" by auto
  show "step (fst (handleFileLoaded P now ue ls seal (v, w))) = ErrorStep"
    "map_option icon (error (fst (handleFileLoaded P now ue ls seal (v, w)))) = Some Expired"
    "snd (handleFileLoaded P now ue ls seal (v, w))
            = w\<lparr>trace := trace w @ [SetStep Validating, SetStep ErrorStep]\<rparr>"
    by (simp_all add: handleFileLoaded_expired [OF s'])
next
  assume a: "platform_inverts P \<and> (\<forall>x\<in>set rs. valid_publicKey P (publicKey x))
        \<and> find (\<lambda>x. toLowerCase (email x) = toLowerCase userEmail) rs = Some r
        \<and> matching_privateKey P (publicKey r) privateKey
        \<and> expiresAt m' = Some s \<and> s \<noteq> [] \<and> date_getTime P s = Some T \<and> T < now"
  then obtain env w1 where
    c: "createSealFile P built src rs fid m' w0 = (Inr env, w1)"
    and o: "fst (openSealFile P env userEmail privateKey w)
               = Inr \<lparr>data = file_arrayBuffer src, dec_fileName = file_name src,
                      dec_fileType = file_type src\<rparr>"
    using createSealFile_roundtrip [of P rs userEmail r privateKey built src fid m' w0 w]
    by blast
  from c have "metadata env = m'\<lparr>createdAt := Some (toISOString P built)\<rparr>"
    by (auto simp: createSealFile_def io_bind_def io_return_def split: prod.splits sum.splits)
  with a have "expiredAt P now env = Some s"
    by (simp add: expiredAt_iff)
  with c o show "\<exists>env w1. createSealFile P built src rs fid m' w0 = (Inr env, w1)
           \<and> expiredAt P now env = Some s
           \<and> fst (openSealFile P env userEmail privateKey w)
               = Inr \<lparr>data = file_arrayBuffer src, dec_fileName = file_name src,
                      dec_fileType = file_type src\<rparr>"
    by blast
qed

theorem openSealFile_no_expiry_check_witness:
  "expiredAt demo 101 sealedUntil100 = Some ''100''
   \<and> fst (openSealFile demo sealedUntil100 ''a@x.com'' ''=A'' world0)
       = Inr \<lparr>data = [1, 2, 3, 4, 5, 6, 7, 8, 9, 10], dec_fileName = ''note.txt'',
              dec_fileType = ''text/plain''\<rparr>
   \<and> map_option icon (error (fst (handleFileLoaded demo 101 (Some ''a@x.com'') keyOfAlice
         sealedUntil100 (viewer0, world0)))) = Some Expired
   \<and> fst (openSealFile demo sealedUntil100 ''a@x.com'' ''=B'' world0)
       = Inl (Exn ''OperationError'' [])
   \<and> platform_rejects demo (Exn ''OperationError'' [])"
proof -
  have valid: "\<forall>x\<in>set [alice, bob]. valid_publicKey demo (publicKey x)"
    by (simp add: alice_def bob_def demo_valid_publicKey)
  have first: "find (\<lambda>x. toLowerCase (email x) = toLowerCase ''a@x.com'') [alice, bob] = Some alice"
    by (simp add: alice_def bob_def toLowerCase_demo)
  have key: "matching_privateKey demo (publicKey alice) ''=A''"
    by (simp add: alice_def demo_matching_privateKey)
  have m: "expiresAt \<lparr>createdAt = None, expiresAt = Some ''100''\<rparr> = Some ''100''"
    "''100'' \<noteq> []" "date_getTime demo ''100'' = Some 100" "(100::int) < 101"
    by (simp_all add: demo_def demo_getTime_def demo_digit_def)
  have ex: "expiredAt demo 101 sealedUntil100 \<noteq> None"
    by (simp add: run_defs)
  have bad: "fst (openSealFile demo sealedUntil100 ''a@x.com'' ''=B'' world0)
       = Inl (Exn ''OperationError'' [])"
    by (simp add: run_defs)
  have recip: "isRecipient sealedUntil100 ''a@x.com''"
    by (simp add: run_defs)
  have "\<exists>env w1. createSealFile demo 5 tenBytes [alice, bob] ''id2''
            \<lparr>createdAt = None, expiresAt = Some ''100''\<rparr> world0 = (Inr env, w1)
          \<and> expiredAt demo 101 env = Some ''100''
          \<and> fst (openSealFile demo env ''a@x.com'' ''=A'' world0)
               = Inr \<lparr>data = file_arrayBuffer tenBytes, dec_fileName = file_name tenBytes,
                      dec_fileType = file_type tenBytes\<rparr>"
    using openSealFile_no_expiry_check
      [where P = demo and userEmail = "''a@x.com''" and privateKey = "''=A''" and w = world0
         and now = 101 and rs = "[alice, bob]" and r = alice
         and m' = "\<lparr>createdAt = None, expiresAt = Some ''100''\<rparr>" and s = "''100''"
         and T = 100 and built = 5 and src = tenBytes and fid = "''id2''" and w0 = world0,
       THEN conjunct2, THEN conjunct2, THEN conjunct2]
      demo_inverts valid first key m
    by simp
  then obtain env w1 where
    c: "createSealFile demo 5 tenBytes [alice, bob] ''id2''
            \<lparr>createdAt = None, expiresAt = Some ''100''\<rparr> world0 = (Inr env, w1)"
    and e: "expiredAt demo 101 env = Some ''100''"
    and o: "fst (openSealFile demo env ''a@x.com'' ''=A'' world0)
               = Inr \<lparr>data = file_arrayBuffer tenBytes, dec_fileName = file_name tenBytes,
                      dec_fileType = file_type tenBytes\<rparr>"
    by blast
  from c have env: "env = sealedUntil100" by (simp add: sealedUntil100_def)
  have viewer: "map_option icon (error (fst (handleFileLoaded demo 101 (Some ''a@x.com'')
         keyOfAlice sealedUntil100 (viewer0, world0)))) = Some Expired"
    using openSealFile_no_expiry_check
      [where P = demo and seal = sealedUntil100 and now = 101 and ue = "Some ''a@x.com''"
         and ls = keyOfAlice and v = viewer0 and w = world0,
       THEN conjunct2, THEN conjunct2, THEN conjunct1] ex
    by simp
  have rej: "platform_rejects demo (Exn ''OperationError'' [])"
    using openSealFile_no_expiry_check
      [where P = demo and seal = sealedUntil100 and userEmail = "''a@x.com''"
         and privateKey = "''=B''" and w = world0 and x = "Exn ''OperationError'' []",
       THEN conjunct2, THEN conjunct1] bad recip
    by simp
  from e o env viewer rej bad show ?thesis
    by (simp add: tenBytes_def)
qed

text \<open>
  C10. \<^verbatim>\<open>createSealFile\<close> keeps every field of the caller's metadata except
  \<^verbatim>\<open>createdAt\<close>: the metadata of the envelope it returns is the caller's metadata with
  \<^verbatim>\<open>createdAt\<close> set to the build time, whatever \<^verbatim>\<open>createdAt\<close> the caller gave;
  \<^verbatim>\<open>expiresAt\<close> and every further field are the caller's.
\<close>

theorem createSealFile_metadata:
  assumes "fst (createSealFile P now file rs fid m w) = Inr env"
  shows "metadata env = m\<lparr>createdAt := Some (toISOString P now)\<rparr>
       \<and> expiresAt (metadata env) = expiresAt m
       \<and> metadata.more (metadata env) = metadata.more m"
  using assms
  by (auto simp: createSealFile_def io_bind_def io_return_def split: prod.splits sum.splits)

theorem createSealFile_metadata_witness:
  "\<not> isl (fst (createSealFile demo 5 tenBytes [alice, bob] ''id1''
       \<lparr>createdAt = Some ''mine'', expiresAt = Some ''99'', \<dots> = ''note''\<rparr> world0))
   \<and> metadata (projr (fst (createSealFile demo 5 tenBytes [alice, bob] ''id1''
       \<lparr>createdAt = Some ''mine'', expiresAt = Some ''99'', \<dots> = ''note''\<rparr> world0)))
     = \<lparr>createdAt = Some ''1970-01-01T00:00:00.000Z'', expiresAt = Some ''99'', \<dots> = ''note''\<rparr>"
proof -
  let ?r = "fst (createSealFile demo 5 tenBytes [alice, bob] ''id1''
       \<lparr>createdAt = Some ''mine'', expiresAt = Some ''99'', \<dots> = ''note''\<rparr> world0)"
  have ok: "\<not> isl ?r"
    by (simp add: createSealFile_def io_defs crypto_defs demo_defs)
  then have h: "?r = Inr (projr ?r)" by simp
  from createSealFile_metadata [OF h] ok show ?thesis
    by (simp add: demo_def)
qed

end
